theory Spec2Isabelle
  imports Complex_Main "HOL-Library.AList" "HOL-Library.Product_Lexorder"
begin

section \<open>Values, frames and the logger\<close>

text \<open>
  The pipeline (\<^verbatim>\<open>src/pipeline\<close>) moves one pandas \<^verbatim>\<open>DataFrame\<close> through the
  functions of \<^verbatim>\<open>transform.py\<close> and \<^verbatim>\<open>load.py\<close>. A frame is modelled as its header (the
  column names with their dtypes, in order) and its rows, each row a dictionary from column
  name to value, kept as an association list in column order. The pandas operations the
  source calls are given their documented, value-level meaning: a missing value (NaN, NaT,
  \<^verbatim>\<open>pd.NA\<close>, None) is the one value \<open>NA\<close>, a float is an exact real number, and an operation
  on a column acts on each row's value. An exception of the source is a value \<open>Inl e\<close>.
\<close>

datatype date = Date (year: int) (month: int) (day: int)

datatype cell = NA | Str string | Flt real | Intg int | Ts date

datatype dtype = object | float64 | int64 | Int64 | int32 | datetime64

datatype error =
    KeyError string
  | TypeError string
  | AttributeError string
  | ValueError string
  | IntegrityError string

type_synonym row = "(string \<times> cell) list"

record frame =
  columns :: "(string \<times> dtype) list"
  rows :: "row list"

text \<open>\<^verbatim>\<open>row[col]\<close>; a row of a well-formed frame has every column of the header.\<close>

definition cell_of :: "row \<Rightarrow> string \<Rightarrow> cell" where
  "cell_of r c = (case map_of r c of Some v \<Rightarrow> v | None \<Rightarrow> NA)"

definition has_col :: "frame \<Rightarrow> string \<Rightarrow> bool" where
  "has_col df c = (c \<in> set (map fst (columns df)))"

text \<open>\<^verbatim>\<open>df[col]\<close> as the list of its values, \<^verbatim>\<open>df[col].dtype\<close>, and \<^verbatim>\<open>len(df)\<close>.\<close>

definition col_values :: "frame \<Rightarrow> string \<Rightarrow> cell list" where
  "col_values df c = map (\<lambda>r. cell_of r c) (rows df)"

definition col_dtype :: "frame \<Rightarrow> string \<Rightarrow> dtype" where
  "col_dtype df c = (case map_of (columns df) c of Some t \<Rightarrow> t | None \<Rightarrow> object)"

definition len :: "frame \<Rightarrow> nat" where
  "len df = length (rows df)"

text \<open>
  \<^verbatim>\<open>df[col] = f(row)\<close> for a value computed row by row: an existing column keeps its
  place, a new one is appended (\<open>AList.update\<close> does both).
\<close>

definition assign :: "string \<Rightarrow> dtype \<Rightarrow> (row \<Rightarrow> cell) \<Rightarrow> frame \<Rightarrow> frame" where
  "assign c t f df =
     \<lparr>columns = AList.update c t (columns df),
      rows = map (\<lambda>r. AList.update c (f r) r) (rows df)\<rparr>"

text \<open>\<^verbatim>\<open>series.isnull().sum()\<close> and \<^verbatim>\<open>df.isnull().sum().sum()\<close>.\<close>

definition isnull_sum :: "cell list \<Rightarrow> nat" where
  "isnull_sum vs = length (filter (\<lambda>v. v = NA) vs)"

definition isnull_sum_sum :: "frame \<Rightarrow> nat" where
  "isnull_sum_sum df = sum_list (map (\<lambda>c. isnull_sum (col_values df c)) (map fst (columns df)))"

subsection \<open>Text formatting\<close>

text \<open>\<^verbatim>\<open>str(n)\<close> for a natural number, and the format specs \<^verbatim>\<open>{n:,}\<close> and \<^verbatim>\<open>{s:<25}\<close>.\<close>

definition digit_char :: "nat \<Rightarrow> char" where
  "digit_char n = char_of (48 + n)"

fun str_nat :: "nat \<Rightarrow> string" where
  "str_nat n = (if n < 10 then [digit_char n] else str_nat (n div 10) @ [digit_char (n mod 10)])"

declare str_nat.simps [simp del]

fun commas_rev :: "string \<Rightarrow> string" where
  "commas_rev (a # b # c # d # ds) = a # b # c # CHR '','' # commas_rev (d # ds)"
| "commas_rev ds = ds"

definition fmt_comma :: "int \<Rightarrow> string" where
  "fmt_comma n =
     (if n < 0 then CHR ''-'' # rev (commas_rev (rev (str_nat (nat (- n)))))
      else rev (commas_rev (rev (str_nat (nat n)))))"

definition ljust :: "nat \<Rightarrow> string \<Rightarrow> string" where
  "ljust w s = s @ replicate (w - length s) CHR '' ''"

text \<open>The three marks the log messages start with (UTF-8 bytes).\<close>

definition check_mark :: string where
  "check_mark = [CHR 0xE2, CHR 0x9C, CHR 0x85]"

definition cross_mark :: string where
  "cross_mark = [CHR 0xE2, CHR 0x9D, CHR 0x8C]"

definition warning_sign :: string where
  "warning_sign = [CHR 0xE2, CHR 0x9A, CHR 0xA0, CHR 0xEF, CHR 0xB8, CHR 0x8F]"

datatype level = INFO | WARNING | ERROR

type_synonym log_record = "level \<times> string"

text \<open>Sequencing of calls that may raise: the first exception ends the function.\<close>

definition and_then :: "error + 'a \<Rightarrow> ('a \<Rightarrow> error + 'b) \<Rightarrow> error + 'b" where
  "and_then x f = (case x of Inl e \<Rightarrow> Inl e | Inr v \<Rightarrow> f v)"

text \<open>\<^verbatim>\<open>df[col]\<close>, which raises KeyError for a name that is not a column.\<close>

definition require :: "frame \<Rightarrow> string \<Rightarrow> error + unit" where
  "require df c = (if has_col df c then Inr () else Inl (KeyError c))"

fun require_all :: "frame \<Rightarrow> string list \<Rightarrow> error + unit" where
  "require_all df [] = Inr ()"
| "require_all df (c # cs) = and_then (require df c) (\<lambda>_. require_all df cs)"

subsection \<open>Calendar dates\<close>

text \<open>
  A parsed date is a \<^verbatim>\<open>Timestamp\<close> at midnight (the format of \<^verbatim>\<open>fix_data_types\<close> has no
  time of day), kept as year, month and day. The calendar functions are those of Python's
  \<^verbatim>\<open>datetime\<close>, which pandas agrees with: the proleptic Gregorian ordinal, the day of the
  week with Monday as 0, the quarter, the ISO week and the \<^verbatim>\<open>strftime\<close> formats in use.
\<close>

definition is_leap :: "int \<Rightarrow> bool" where
  "is_leap y = (y mod 4 = 0 \<and> (y mod 100 \<noteq> 0 \<or> y mod 400 = 0))"

definition days_in_month :: "int \<Rightarrow> int \<Rightarrow> int" where
  "days_in_month y m =
     (if m = 2 then (if is_leap y then 29 else 28)
      else if m = 4 \<or> m = 6 \<or> m = 9 \<or> m = 11 then 30 else 31)"

definition days_before_year :: "int \<Rightarrow> int" where
  "days_before_year y = (let p = y - 1 in p * 365 + p div 4 - p div 100 + p div 400)"

definition days_before_month :: "int \<Rightarrow> int \<Rightarrow> int" where
  "days_before_month y m = sum_list (map (days_in_month y) [1..m - 1])"

fun toordinal :: "date \<Rightarrow> int" where
  "toordinal (Date y m d) = days_before_year y + days_before_month y m + d"

definition dayofweek :: "date \<Rightarrow> int" where
  "dayofweek d = (toordinal d + 6) mod 7"

fun quarter_of :: "date \<Rightarrow> int" where
  "quarter_of (Date y m d) = (m - 1) div 3 + 1"

definition isoweek1monday :: "int \<Rightarrow> int" where
  "isoweek1monday y =
     (let firstday = toordinal (Date y 1 1);
          firstweekday = (firstday + 6) mod 7;
          week1monday = firstday - firstweekday
      in if firstweekday > 3 then week1monday + 7 else week1monday)"

fun isocalendar_week :: "date \<Rightarrow> int" where
  "isocalendar_week (Date y m d) =
     (let today = toordinal (Date y m d);
          week = (today - isoweek1monday y) div 7
      in if week < 0 then (today - isoweek1monday (y - 1)) div 7 + 1
         else if week \<ge> 52 \<and> today \<ge> isoweek1monday (y + 1) then 1
         else week + 1)"

definition month_names :: "string list" where
  "month_names = [''January'', ''February'', ''March'', ''April'', ''May'', ''June'', ''July'',
     ''August'', ''September'', ''October'', ''November'', ''December'']"

definition day_names :: "string list" where
  "day_names = [''Monday'', ''Tuesday'', ''Wednesday'', ''Thursday'', ''Friday'', ''Saturday'',
     ''Sunday'']"

definition name_at :: "string list \<Rightarrow> int \<Rightarrow> string" where
  "name_at names i = (if 0 \<le> i \<and> nat i < length names then names ! nat i else [])"

fun strftime_B :: "date \<Rightarrow> string" where
  "strftime_B (Date y m d) = name_at month_names (m - 1)"

definition strftime_A :: "date \<Rightarrow> string" where
  "strftime_A d = name_at day_names (dayofweek d)"

definition zfill :: "nat \<Rightarrow> string \<Rightarrow> string" where
  "zfill w s = replicate (w - length s) CHR ''0'' @ s"

text \<open>\<^verbatim>\<open>strftime('%Y-%m-%d')\<close>, and \<^verbatim>\<open>int(strftime('%Y%m%d'))\<close>: the number whose decimal
  digits are the four of the year, the two of the month and the two of the day.\<close>

fun strftime_Y_m_d :: "date \<Rightarrow> string" where
  "strftime_Y_m_d (Date y m d) =
     zfill 4 (str_nat (nat y)) @ ''-'' @ zfill 2 (str_nat (nat m)) @ ''-'' @ zfill 2 (str_nat (nat d))"

fun date_key_of :: "date \<Rightarrow> int" where
  "date_key_of (Date y m d) = y * 10000 + m * 100 + d"

text \<open>The order of two timestamps is the order of (year, month, day).\<close>

fun ymd :: "date \<Rightarrow> int \<times> int \<times> int" where
  "ymd (Date y m d) = (y, m, d)"

text \<open>A day of the calendar.\<close>

fun valid_date :: "date \<Rightarrow> bool" where
  "valid_date (Date y m d) = (1 \<le> m \<and> m \<le> 12 \<and> 1 \<le> d \<and> d \<le> days_in_month y m)"

section \<open>The transform phase (transform.py)\<close>

subsection \<open>clean\_column\_names\<close>

definition lower_char :: "char \<Rightarrow> char" where
  "lower_char c =
     (if 65 \<le> (of_char c :: nat) \<and> (of_char c :: nat) \<le> 90 then char_of (of_char c + 32 :: nat) else c)"

definition replace_char :: "char \<Rightarrow> char \<Rightarrow> string \<Rightarrow> string" where
  "replace_char a b s = map (\<lambda>c. if c = a then b else c) s"

definition clean_name :: "string \<Rightarrow> string" where
  "clean_name s =
     replace_char CHR ''/'' CHR ''_'' (replace_char CHR ''-'' CHR ''_''
       (replace_char CHR '' '' CHR ''_'' (map lower_char s)))"

definition clean_column_names :: "frame \<Rightarrow> frame" where
  "clean_column_names df =
     \<lparr>columns = map (\<lambda>(c, t). (clean_name c, t)) (columns df),
      rows = map (map (\<lambda>(c, v). (clean_name c, v))) (rows df)\<rparr>"

subsection \<open>remove\_duplicates\<close>

text \<open>
  \<^verbatim>\<open>drop_duplicates\<close> keeps the first row of every group of rows that agree on the key
  (the whole row, or the columns of \<^verbatim>\<open>subset\<close>) and keeps the order; two missing values
  count as equal. \<open>seen\<close> holds the keys met so far.
\<close>

fun keep_first :: "('a \<Rightarrow> 'k) \<Rightarrow> 'k list \<Rightarrow> 'a list \<Rightarrow> 'a list" where
  "keep_first key seen [] = []"
| "keep_first key seen (x # xs) =
     (if key x \<in> set seen then keep_first key seen xs
      else x # keep_first key (key x # seen) xs)"

definition drop_duplicates :: "'a list \<Rightarrow> 'a list" where
  "drop_duplicates xs = keep_first (\<lambda>x. x) [] xs"

definition drop_duplicates_subset :: "('a \<Rightarrow> 'k) \<Rightarrow> 'a list \<Rightarrow> 'a list" where
  "drop_duplicates_subset key xs = keep_first key [] xs"

definition remove_duplicates :: "frame \<Rightarrow> frame" where
  "remove_duplicates df = df\<lparr>rows := drop_duplicates (rows df)\<rparr>"

subsection \<open>fix\_data\_types\<close>

text \<open>
  The two text parsers of pandas are parameters: \<open>strptime\<close> reads a date in the format
  \<^verbatim>\<open>%Y-%m-%d\<close>, \<open>to_number\<close> reads an integer (\<open>Inl\<close>) or a float (\<open>Inr\<close>); each returns
  \<open>None\<close> for a text it cannot read, which \<^verbatim>\<open>errors='coerce'\<close> turns into a missing value.
\<close>

type_synonym date_parser = "string \<Rightarrow> date option"
type_synonym number_parser = "string \<Rightarrow> (int + real) option"

definition to_datetime :: "date_parser \<Rightarrow> cell \<Rightarrow> cell" where
  "to_datetime strptime v =
     (case v of
        Str s \<Rightarrow> (case strptime s of Some d \<Rightarrow> Ts d | None \<Rightarrow> NA)
      | Ts d \<Rightarrow> Ts d
      | _ \<Rightarrow> NA)"

definition to_numeric :: "number_parser \<Rightarrow> cell \<Rightarrow> cell" where
  "to_numeric to_number v =
     (case v of
        Str s \<Rightarrow> (case to_number s of Some (Inl n) \<Rightarrow> Intg n | Some (Inr x) \<Rightarrow> Flt x | None \<Rightarrow> NA)
      | Flt x \<Rightarrow> Flt x
      | Intg n \<Rightarrow> Intg n
      | _ \<Rightarrow> NA)"

text \<open>
  A numpy integer column cannot hold a missing value: a column of integers with one becomes
  float64 and its integers floats.
\<close>

definition is_int_cell :: "cell \<Rightarrow> bool" where
  "is_int_cell v = (case v of Intg n \<Rightarrow> True | _ \<Rightarrow> False)"

definition as_float :: "cell \<Rightarrow> cell" where
  "as_float v = (case v of Intg n \<Rightarrow> Flt (of_int n) | _ \<Rightarrow> v)"

definition assign_numeric :: "string \<Rightarrow> dtype \<Rightarrow> (row \<Rightarrow> cell) \<Rightarrow> frame \<Rightarrow> frame" where
  "assign_numeric c int_type f df =
     (if list_all is_int_cell (map f (rows df)) then assign c int_type f df
      else assign c float64 (\<lambda>r. as_float (f r)) df)"

definition to_datetime_col :: "date_parser \<Rightarrow> string \<Rightarrow> frame \<Rightarrow> error + frame" where
  "to_datetime_col strptime c df =
     and_then (require df c)
       (\<lambda>_. Inr (assign c datetime64 (\<lambda>r. to_datetime strptime (cell_of r c)) df))"

definition to_numeric_col :: "number_parser \<Rightarrow> string \<Rightarrow> frame \<Rightarrow> error + frame" where
  "to_numeric_col to_number c df =
     and_then (require df c)
       (\<lambda>_. Inr (assign_numeric c int64 (\<lambda>r. to_numeric to_number (cell_of r c)) df))"

text \<open>\<^verbatim>\<open>.astype('Int64')\<close>: a float that is not a whole number cannot be cast.\<close>

definition is_whole :: "cell \<Rightarrow> bool" where
  "is_whole v = (case v of Flt x \<Rightarrow> of_int \<lfloor>x\<rfloor> = x | Intg n \<Rightarrow> True | NA \<Rightarrow> True | _ \<Rightarrow> False)"

definition as_Int64 :: "cell \<Rightarrow> cell" where
  "as_Int64 v = (case v of Flt x \<Rightarrow> Intg \<lfloor>x\<rfloor> | _ \<Rightarrow> v)"

definition astype_Int64 :: "string \<Rightarrow> frame \<Rightarrow> error + frame" where
  "astype_Int64 c df =
     (if list_all is_whole (col_values df c)
      then Inr (assign c Int64 (\<lambda>r. as_Int64 (cell_of r c)) df)
      else Inl (TypeError ''cannot safely cast non-equivalent float64 to int64''))"

definition fix_data_types :: "date_parser \<Rightarrow> number_parser \<Rightarrow> frame \<Rightarrow> error + frame" where
  "fix_data_types strptime to_number df =
     and_then (to_datetime_col strptime ''order_date'' df) (\<lambda>df.
     and_then (to_datetime_col strptime ''ship_date'' df) (\<lambda>df.
     and_then (to_numeric_col to_number ''sales'' df) (\<lambda>df.
     and_then (to_numeric_col to_number ''profit'' df) (\<lambda>df.
     and_then (to_numeric_col to_number ''discount'' df) (\<lambda>df.
     and_then (to_numeric_col to_number ''quantity'' df) (\<lambda>df.
     astype_Int64 ''quantity'' df))))))"

text \<open>
  What \<^verbatim>\<open>fix_data_types\<close> hands to the logger when it returns \<open>df'\<close>: the only count it
  takes is \<^verbatim>\<open>date_nulls\<close>, the missing values of \<^verbatim>\<open>order_date\<close>.
\<close>

definition dtype_name :: "dtype \<Rightarrow> string" where
  "dtype_name t =
     (case t of object \<Rightarrow> ''object'' | float64 \<Rightarrow> ''float64'' | int64 \<Rightarrow> ''int64''
      | Int64 \<Rightarrow> ''Int64'' | int32 \<Rightarrow> ''int32'' | datetime64 \<Rightarrow> ''datetime64[ns]'')"

definition fix_data_types_log :: "frame \<Rightarrow> log_record list" where
  "fix_data_types_log df' =
     (let date_nulls = isnull_sum (col_values df' ''order_date'') in
      [(INFO, ''Fixing data types...''),
       (if date_nulls > 0
        then (WARNING, warning_sign @ ''  '' @ str_nat date_nulls @ '' order dates failed to parse'')
        else (INFO, check_mark @ '' All dates converted successfully'')),
       (INFO, check_mark @ '' Data types fixed''),
       (INFO, ''   order_date : '' @ dtype_name (col_dtype df' ''order_date'')),
       (INFO, ''   ship_date  : '' @ dtype_name (col_dtype df' ''ship_date'')),
       (INFO, ''   sales      : '' @ dtype_name (col_dtype df' ''sales'')),
       (INFO, ''   quantity   : '' @ dtype_name (col_dtype df' ''quantity''))])"

subsection \<open>add\_derived\_columns\<close>

definition num_of :: "cell \<Rightarrow> real option" where
  "num_of v = (case v of Flt x \<Rightarrow> Some x | Intg n \<Rightarrow> Some (of_int n) | _ \<Rightarrow> None)"

text \<open>The values arithmetic and comparison with a number accept: numbers and missing values.\<close>

definition arith_cell :: "cell \<Rightarrow> bool" where
  "arith_cell v = (case v of Str s \<Rightarrow> False | Ts d \<Rightarrow> False | _ \<Rightarrow> True)"

definition date_cell :: "cell \<Rightarrow> bool" where
  "date_cell v = (case v of Ts d \<Rightarrow> True | NA \<Rightarrow> True | _ \<Rightarrow> False)"

text \<open>A column the \<^verbatim>\<open>.dt\<close> accessor and date arithmetic accept.\<close>

definition datetime_col :: "frame \<Rightarrow> string \<Rightarrow> bool" where
  "datetime_col df c = (col_dtype df c = datetime64 \<and> list_all date_cell (col_values df c))"

definition require_dt :: "frame \<Rightarrow> string \<Rightarrow> error + unit" where
  "require_dt df c =
     and_then (require df c) (\<lambda>_.
       if datetime_col df c then Inr ()
       else Inl (AttributeError ''Can only use .dt accessor with datetimelike values''))"

text \<open>\<^verbatim>\<open>.replace(0, pd.NA)\<close>, and rounding to two decimals (half to even, as numpy rounds).\<close>

definition replace_zero :: "cell \<Rightarrow> cell" where
  "replace_zero v = (if num_of v = Some 0 then NA else v)"

definition round_half_even :: "real \<Rightarrow> int" where
  "round_half_even x =
     (let f = \<lfloor>x\<rfloor>; d = x - of_int f
      in if d < 1 / 2 then f else if 1 / 2 < d then f + 1 else if even f then f else f + 1)"

definition round2 :: "real \<Rightarrow> real" where
  "round2 x = of_int (round_half_even (x * 100)) / 100"

definition profit_margin_of :: "cell \<Rightarrow> cell \<Rightarrow> cell" where
  "profit_margin_of p s =
     (case (num_of p, num_of (replace_zero s)) of
        (Some a, Some b) \<Rightarrow> Flt (round2 (a / b * 100))
      | _ \<Rightarrow> NA)"

definition add_profit_margin :: "frame \<Rightarrow> error + frame" where
  "add_profit_margin df =
     and_then (require df ''profit'') (\<lambda>_.
     and_then (require df ''sales'') (\<lambda>_.
       if list_all arith_cell (col_values df ''profit'') \<and> list_all arith_cell (col_values df ''sales'')
       then Inr (assign ''profit_margin'' float64
                  (\<lambda>r. profit_margin_of (cell_of r ''profit'') (cell_of r ''sales'')) df)
       else Inl (TypeError ''unsupported operand type(s) for /'')))"

definition days_between :: "cell \<Rightarrow> cell \<Rightarrow> cell" where
  "days_between ship order' =
     (case (ship, order') of (Ts a, Ts b) \<Rightarrow> Intg (toordinal a - toordinal b) | _ \<Rightarrow> NA)"

definition add_delivery_days :: "frame \<Rightarrow> error + frame" where
  "add_delivery_days df =
     and_then (require df ''ship_date'') (\<lambda>_.
     and_then (require df ''order_date'') (\<lambda>_.
       if datetime_col df ''ship_date'' \<and> datetime_col df ''order_date''
       then Inr (assign_numeric ''delivery_days'' int64
                  (\<lambda>r. days_between (cell_of r ''ship_date'') (cell_of r ''order_date'')) df)
       else Inl (TypeError ''unsupported operand type(s) for -'')))"

definition dt_int :: "(date \<Rightarrow> int) \<Rightarrow> cell \<Rightarrow> cell" where
  "dt_int f v = (case v of Ts d \<Rightarrow> Intg (f d) | _ \<Rightarrow> NA)"

definition dt_str :: "(date \<Rightarrow> string) \<Rightarrow> cell \<Rightarrow> cell" where
  "dt_str f v = (case v of Ts d \<Rightarrow> Str (f d) | _ \<Rightarrow> NA)"

text \<open>\<^verbatim>\<open>.dt.dayofweek.isin([5, 6]).astype(int)\<close>; a missing date is in no list.\<close>

definition weekend_flag :: "cell \<Rightarrow> cell" where
  "weekend_flag v =
     (case v of Ts d \<Rightarrow> Intg (if dayofweek d \<in> set [5, 6] then 1 else 0) | _ \<Rightarrow> Intg 0)"

text \<open>\<^verbatim>\<open>.astype(int)\<close> on the ISO weeks raises when one of them is missing.\<close>

definition add_order_week :: "frame \<Rightarrow> error + frame" where
  "add_order_week df =
     and_then (require_dt df ''order_date'') (\<lambda>_.
       if NA \<in> set (col_values df ''order_date'')
       then Inl (ValueError ''cannot convert NA to integer'')
       else Inr (assign ''order_week'' int64
                  (\<lambda>r. dt_int isocalendar_week (cell_of r ''order_date'')) df))"

definition add_dt_int :: "string \<Rightarrow> (date \<Rightarrow> int) \<Rightarrow> frame \<Rightarrow> error + frame" where
  "add_dt_int c f df =
     and_then (require_dt df ''order_date'') (\<lambda>_.
       Inr (assign_numeric c int32 (\<lambda>r. dt_int f (cell_of r ''order_date'')) df))"

definition add_dt_str :: "string \<Rightarrow> (date \<Rightarrow> string) \<Rightarrow> frame \<Rightarrow> error + frame" where
  "add_dt_str c f df =
     and_then (require_dt df ''order_date'') (\<lambda>_.
       Inr (assign c object (\<lambda>r. dt_str f (cell_of r ''order_date'')) df))"

definition add_is_weekend :: "frame \<Rightarrow> error + frame" where
  "add_is_weekend df =
     and_then (require_dt df ''order_date'') (\<lambda>_.
       Inr (assign ''is_weekend'' int64 (\<lambda>r. weekend_flag (cell_of r ''order_date'')) df))"

definition add_derived_columns :: "frame \<Rightarrow> error + frame" where
  "add_derived_columns df =
     and_then (add_profit_margin df) (\<lambda>df.
     and_then (add_delivery_days df) (\<lambda>df.
     and_then (add_dt_int ''order_year'' date.year df) (\<lambda>df.
     and_then (add_dt_int ''order_month'' date.month df) (\<lambda>df.
     and_then (add_dt_int ''order_quarter'' quarter_of df) (\<lambda>df.
     and_then (add_dt_str ''order_month_name'' strftime_B df) (\<lambda>df.
     and_then (add_dt_str ''order_day_name'' strftime_A df) (\<lambda>df.
     and_then (add_order_week df) (\<lambda>df.
     add_is_weekend df))))))))"

subsection \<open>handle\_nulls\<close>

definition fillna :: "string \<Rightarrow> cell \<Rightarrow> dtype \<Rightarrow> frame \<Rightarrow> frame" where
  "fillna c v t df = assign c t (\<lambda>r. if cell_of r c = NA then v else cell_of r c) df"

text \<open>\<^verbatim>\<open>fillna(0)\<close> writes the zero of the column's type.\<close>

definition zero_of :: "dtype \<Rightarrow> cell" where
  "zero_of t = (if t = float64 then Flt 0 else Intg 0)"

text \<open>The body of the loop over \<^verbatim>\<open>df.columns\<close>, and the function.\<close>

definition handle_col :: "string \<Rightarrow> frame \<Rightarrow> frame" where
  "handle_col c df =
     (let null_count = isnull_sum (col_values df c) in
      if null_count > 0 then
        (if col_dtype df c \<in> set [float64, int64, Int64]
         then fillna c (zero_of (col_dtype df c)) (col_dtype df c) df
         else fillna c (Str ''Unknown'') object df)
      else df)"

text \<open>The value that the loop body writes into a missing cell of a column of type \<open>t\<close>.\<close>

definition fill_value :: "dtype \<Rightarrow> cell" where
  "fill_value t = (if t \<in> set [float64, int64, Int64] then zero_of t else Str ''Unknown'')"

definition handle_nulls :: "frame \<Rightarrow> frame" where
  "handle_nulls df =
     (let null_before = isnull_sum_sum df in
      if null_before = 0 then df
      else fold handle_col (map fst (columns df)) df)"

subsection \<open>validate\_data\<close>

definition critical_cols :: "string list" where
  "critical_cols = [''order_id'', ''order_date'', ''customer_id'', ''product_id'', ''sales'',
     ''quantity'', ''profit'']"

definition null_message :: "string \<Rightarrow> nat \<Rightarrow> string" where
  "null_message c null_count =
     ''Critical column '' @ [CHR 0x27] @ c @ [CHR 0x27] @ '' has '' @ str_nat null_count
       @ '' null values''"

text \<open>Check 1, the loop over the critical columns.\<close>

fun null_errors :: "frame \<Rightarrow> string list \<Rightarrow> error + string list" where
  "null_errors df [] = Inr []"
| "null_errors df (c # cs) =
     and_then (require df c) (\<lambda>_.
       let null_count = isnull_sum (col_values df c) in
       and_then (null_errors df cs) (\<lambda>rest.
         Inr ((if null_count > 0 then [null_message c null_count] else []) @ rest)))"

text \<open>\<^verbatim>\<open>(df[col] <compared with a number>).sum()\<close>: a missing value compares false.\<close>

definition count_where :: "(real \<Rightarrow> bool) \<Rightarrow> frame \<Rightarrow> string \<Rightarrow> error + nat" where
  "count_where P df c =
     and_then (require df c) (\<lambda>_.
       if list_all arith_cell (col_values df c)
       then Inr (length (filter (\<lambda>v. case num_of v of Some x \<Rightarrow> P x | None \<Rightarrow> False)
                   (col_values df c)))
       else Inl (TypeError ''comparison not supported between str and int''))"

text \<open>The list \<^verbatim>\<open>errors\<close> and the count \<^verbatim>\<open>neg_delivery\<close> that the function builds.\<close>

definition validation_errors :: "frame \<Rightarrow> error + (string list \<times> nat)" where
  "validation_errors df =
     and_then (null_errors df critical_cols) (\<lambda>nulls.
     and_then (count_where (\<lambda>x. x < 0) df ''quantity'') (\<lambda>neg_qty.
     and_then (count_where (\<lambda>x. x < 0) df ''sales'') (\<lambda>neg_sales.
     and_then (count_where (\<lambda>x. x < 0) df ''delivery_days'') (\<lambda>neg_delivery.
     and_then (count_where (\<lambda>x. x < 0 \<or> x > 1) df ''discount'') (\<lambda>bad_discount.
       Inr (nulls
            @ (if neg_qty > 0 then [str_nat neg_qty @ '' rows have negative quantity''] else [])
            @ (if neg_sales > 0 then [str_nat neg_sales @ '' rows have negative sales''] else [])
            @ (if bad_discount > 0
               then [str_nat bad_discount @ '' rows have invalid discount values''] else []),
            neg_delivery))))))"

text \<open>\<^verbatim>\<open>repr\<close> of a text without a double quote or a backslash, and of a list of them.\<close>

definition repr_str :: "string \<Rightarrow> string" where
  "repr_str s = (if CHR 0x27 \<in> set s then [CHR 0x22] @ s @ [CHR 0x22] else [CHR 0x27] @ s @ [CHR 0x27])"

fun join :: "string \<Rightarrow> string list \<Rightarrow> string" where
  "join sep [] = []"
| "join sep [s] = s"
| "join sep (s # t # ss) = s @ sep @ join sep (t # ss)"

definition repr_list :: "string list \<Rightarrow> string" where
  "repr_list ss = ''['' @ join '', '' (map repr_str ss) @ '']''"

definition validate_data :: "frame \<Rightarrow> error + bool" where
  "validate_data df =
     and_then (validation_errors df) (\<lambda>(errors, neg_delivery).
       if errors \<noteq> [] then Inl (ValueError (''Data validation failed: '' @ repr_list errors))
       else Inr True)"

text \<open>What \<^verbatim>\<open>validate_data\<close> hands to the logger, once the five checks have been taken.\<close>

definition validate_data_log :: "frame \<Rightarrow> log_record list" where
  "validate_data_log df =
     (case validation_errors df of
        Inl e \<Rightarrow> [(INFO, ''Validating transformed data...'')]
      | Inr (errors, neg_delivery) \<Rightarrow>
          [(INFO, ''Validating transformed data...'')]
          @ (if neg_delivery > 0
             then [(WARNING, warning_sign @ ''  '' @ str_nat neg_delivery
                      @ '' rows have negative delivery days'')]
             else [])
          @ (if errors \<noteq> []
             then map (\<lambda>e. (ERROR, cross_mark @ '' Validation failed: '' @ e)) errors
             else [(INFO, check_mark @ '' Data validation passed!''),
                   (INFO, ''   All critical columns have no nulls''),
                   (INFO, ''   All quantities are positive''),
                   (INFO, ''   All sales values are positive''),
                   (INFO, ''   All discounts are between 0 and 1'')]))"

subsection \<open>transform\_data\<close>

text \<open>
  The six steps in the order of the source. Step 7 writes the frame to a file for audit and
  returns it unchanged.
\<close>

definition derivation_input :: "date_parser \<Rightarrow> number_parser \<Rightarrow> frame \<Rightarrow> error + frame" where
  "derivation_input strptime to_number df =
     fix_data_types strptime to_number (remove_duplicates (clean_column_names df))"

definition transform_data :: "date_parser \<Rightarrow> number_parser \<Rightarrow> frame \<Rightarrow> error + frame" where
  "transform_data strptime to_number df =
     (let df = clean_column_names df;
          df = remove_duplicates df
      in and_then (fix_data_types strptime to_number df) (\<lambda>df.
         and_then (add_derived_columns df) (\<lambda>df.
           let df = handle_nulls df
           in and_then (validate_data df) (\<lambda>_. Inr df))))"

section \<open>The star schema (load.py, create\_schema)\<close>

text \<open>
  One record type per table of \<^verbatim>\<open>create_schema\<close>, a field per column. A column that the
  schema lets be NULL, or that SQLite stores with whatever value it is given, holds a
  \<open>cell\<close>; a key column holds an integer. A staging row is the list of its twenty values.
  A value read back from a table is the value that was written (SQLite's type affinity is
  not modelled; the natural keys are text in every frame the extract phase reads).
\<close>

record dim_date_row =
  date_key :: int
  full_date :: string
  year :: int
  quarter :: int
  month :: int
  month_name :: string
  day :: int
  day_of_week :: int
  day_name :: string
  week_of_year :: int
  is_weekend :: int

record dim_customer_row =
  customer_key :: int
  customer_id :: cell
  customer_name :: cell
  segment :: cell
  country :: cell
  city :: cell
  state :: cell
  postal_code :: cell
  region :: cell
  first_order_date :: cell
  last_order_date :: cell

record dim_product_row =
  product_key :: int
  product_id :: cell
  product_name :: cell
  category :: cell
  sub_category :: cell

record dim_shipping_row =
  shipping_key :: int
  ship_mode :: cell

record fact_sales_row =
  sales_key :: int
  order_id :: cell
  order_date_key :: int
  ship_date_key :: int
  customer_key :: int
  product_key :: int
  shipping_key :: int
  quantity :: cell
  sales_amount :: cell
  discount :: cell
  profit :: cell

record database =
  staging_raw_sales :: "cell list list"
  dim_date :: "dim_date_row list"
  dim_customer :: "dim_customer_row list"
  dim_product :: "dim_product_row list"
  dim_shipping :: "dim_shipping_row list"
  fact_sales :: "fact_sales_row list"

section \<open>The load phase (load.py)\<close>

subsection \<open>create\_schema\<close>

text \<open>
  Every table is dropped if it exists and created again, so every table is empty and the
  AUTOINCREMENT keys start again at 1. The constraints of the schema are checked by the
  inserts below: PRIMARY KEY and UNIQUE (no value twice), NOT NULL (no missing value). The
  foreign keys of fact\_sales are declared, but \<^verbatim>\<open>PRAGMA foreign_keys = ON\<close> is set on the
  connection that \<^verbatim>\<open>create_schema\<close> opens and closes, not on the engine's connections that
  insert, so no insert checks them.
\<close>

definition create_schema :: "database \<Rightarrow> database" where
  "create_schema db =
     \<lparr>staging_raw_sales = [], dim_date = [], dim_customer = [], dim_product = [],
      dim_shipping = [], fact_sales = []\<rparr>"

text \<open>The key an AUTOINCREMENT column gives the next row, and the keys of a list of rows.\<close>

definition next_key :: "int list \<Rightarrow> int" where
  "next_key ks = fold max ks 0 + 1"

fun with_keys :: "(int \<Rightarrow> 'a \<Rightarrow> 'a) \<Rightarrow> int \<Rightarrow> 'a list \<Rightarrow> 'a list" where
  "with_keys put k [] = []"
| "with_keys put k (x # xs) = put k x # with_keys put (k + 1) xs"

text \<open>A UNIQUE or PRIMARY KEY column accepts the new values.\<close>

definition unique_ok :: "'k list \<Rightarrow> 'k list \<Rightarrow> bool" where
  "unique_ok existing new = (distinct new \<and> list_all (\<lambda>k. k \<notin> set existing) new)"

text \<open>The PRIMARY KEY and UNIQUE constraints of the schema, as a property of a database.\<close>

definition constraints_hold :: "database \<Rightarrow> bool" where
  "constraints_hold db =
     (distinct (map date_key (dim_date db))
      \<and> distinct (map dim_customer_row.customer_key (dim_customer db))
      \<and> distinct (map customer_id (dim_customer db))
      \<and> distinct (map dim_product_row.product_key (dim_product db))
      \<and> distinct (map product_id (dim_product db))
      \<and> distinct (map dim_shipping_row.shipping_key (dim_shipping db))
      \<and> distinct (map ship_mode (dim_shipping db))
      \<and> distinct (map sales_key (fact_sales db)))"

subsection \<open>load\_staging\<close>

definition staging_cols :: "string list" where
  "staging_cols = [''order_id'', ''order_date'', ''ship_date'', ''ship_mode'', ''customer_id'',
     ''customer_name'', ''segment'', ''country'', ''city'', ''state'', ''postal_code'', ''region'',
     ''product_id'', ''category'', ''sub_category'', ''product_name'', ''sales'', ''quantity'',
     ''discount'', ''profit'']"

definition staging_value :: "row \<Rightarrow> string \<Rightarrow> cell" where
  "staging_value r c =
     (if c = ''order_date'' \<or> c = ''ship_date'' then dt_str strftime_Y_m_d (cell_of r c)
      else cell_of r c)"

definition load_staging :: "frame \<Rightarrow> database \<Rightarrow> error + nat \<times> database" where
  "load_staging df db =
     and_then (require_all df staging_cols) (\<lambda>_.
     and_then (require_dt df ''order_date'') (\<lambda>_.
     and_then (require_dt df ''ship_date'') (\<lambda>_.
       let staging_df = map (\<lambda>r. map (staging_value r) staging_cols) (rows df)
       in Inr (length staging_df,
               db\<lparr>staging_raw_sales := staging_raw_sales db @ staging_df\<rparr>))))"

subsection \<open>load\_dim\_date\<close>

definition dropna :: "cell list \<Rightarrow> cell list" where
  "dropna vs = filter (\<lambda>v. v \<noteq> NA) vs"

fun dates_of :: "cell list \<Rightarrow> date list" where
  "dates_of [] = []"
| "dates_of (Ts d # vs) = d # dates_of vs"
| "dates_of (v # vs) = dates_of vs"

text \<open>The dictionary appended to \<^verbatim>\<open>date_rows\<close> for one date.\<close>

definition date_row :: "date \<Rightarrow> dim_date_row" where
  "date_row d =
     \<lparr>date_key = date_key_of d,
      full_date = strftime_Y_m_d d,
      year = date.year d,
      quarter = quarter_of d,
      month = date.month d,
      month_name = strftime_B d,
      day = date.day d,
      day_of_week = dayofweek d,
      day_name = strftime_A d,
      week_of_year = isocalendar_week d,
      is_weekend = (if dayofweek d \<ge> 5 then 1 else 0)\<rparr>"

definition insert_dim_date :: "dim_date_row list \<Rightarrow> database \<Rightarrow> error + database" where
  "insert_dim_date new db =
     (if unique_ok (map date_key (dim_date db)) (map date_key new)
      then Inr (db\<lparr>dim_date := dim_date db @ new\<rparr>)
      else Inl (IntegrityError ''UNIQUE constraint failed: dim_date.date_key''))"

text \<open>
  The two date columns are datetime64 when \<^verbatim>\<open>load_data\<close> calls this function
  (\<^verbatim>\<open>load_staging\<close> has used their \<^verbatim>\<open>.dt\<close> accessor); another column is refused here.
\<close>

text \<open>The list \<^verbatim>\<open>all_dates\<close>: the dates of both columns without the missing ones, each once
  (\<^verbatim>\<open>unique\<close> keeps the first of equal values), sorted.\<close>

definition all_dates :: "frame \<Rightarrow> date list" where
  "all_dates df =
     (let order_dates = dropna (col_values df ''order_date'');
          ship_dates = dropna (col_values df ''ship_date'');
          all_dates = drop_duplicates (order_dates @ ship_dates)
      in sort_key ymd (dates_of all_dates))"

definition load_dim_date :: "frame \<Rightarrow> database \<Rightarrow> error + nat \<times> database" where
  "load_dim_date df db =
     and_then (require_dt df ''order_date'') (\<lambda>_.
     and_then (require_dt df ''ship_date'') (\<lambda>_.
       let date_rows = map date_row (all_dates df)
       in and_then (insert_dim_date date_rows db) (\<lambda>db. Inr (length date_rows, db))))"

subsection \<open>load\_dim\_customer\<close>

fun earliest :: "date list \<Rightarrow> date option" where
  "earliest [] = None"
| "earliest (d # ds) =
     (case earliest ds of None \<Rightarrow> Some d | Some e \<Rightarrow> Some (if ymd d \<le> ymd e then d else e))"

fun latest :: "date list \<Rightarrow> date option" where
  "latest [] = None"
| "latest (d # ds) =
     (case latest ds of None \<Rightarrow> Some d | Some e \<Rightarrow> Some (if ymd e \<le> ymd d then d else e))"

text \<open>
  \<^verbatim>\<open>groupby('customer_id')\<close> with min and max of the order date: the group of a customer
  holds the dates of its rows, a missing customer id has no group, and the dates come back
  as text.
\<close>

definition customer_order_dates :: "frame \<Rightarrow> cell \<Rightarrow> date list" where
  "customer_order_dates df cid =
     dates_of (map (\<lambda>r. cell_of r ''order_date'')
       (filter (\<lambda>r. cell_of r ''customer_id'' = cid) (rows df)))"

definition date_text :: "date option \<Rightarrow> cell" where
  "date_text d = (case d of Some d \<Rightarrow> Str (strftime_Y_m_d d) | None \<Rightarrow> NA)"

definition customer_row :: "frame \<Rightarrow> row \<Rightarrow> dim_customer_row" where
  "customer_row df r =
     (let cid = cell_of r ''customer_id'';
          dates = (if cid = NA then [] else customer_order_dates df cid)
      in \<lparr>dim_customer_row.customer_key = 0,
          customer_id = cid,
          customer_name = cell_of r ''customer_name'',
          segment = cell_of r ''segment'',
          country = cell_of r ''country'',
          city = cell_of r ''city'',
          state = cell_of r ''state'',
          postal_code = cell_of r ''postal_code'',
          region = cell_of r ''region'',
          first_order_date = date_text (earliest dates),
          last_order_date = date_text (latest dates)\<rparr>)"

definition customer_cols :: "string list" where
  "customer_cols = [''customer_id'', ''customer_name'', ''segment'', ''country'', ''city'',
     ''state'', ''postal_code'', ''region'']"

definition insert_dim_customer :: "dim_customer_row list \<Rightarrow> database \<Rightarrow> error + database" where
  "insert_dim_customer new db =
     (if NA \<in> set (map customer_id new)
      then Inl (IntegrityError ''NOT NULL constraint failed: dim_customer.customer_id'')
      else if \<not> unique_ok (map customer_id (dim_customer db)) (map customer_id new)
      then Inl (IntegrityError ''UNIQUE constraint failed: dim_customer.customer_id'')
      else Inr (db\<lparr>dim_customer := dim_customer db
                  @ with_keys (\<lambda>k r. r\<lparr>dim_customer_row.customer_key := k\<rparr>)
                      (next_key (map dim_customer_row.customer_key (dim_customer db))) new\<rparr>))"

definition load_dim_customer :: "frame \<Rightarrow> database \<Rightarrow> error + nat \<times> database" where
  "load_dim_customer df db =
     and_then (require df ''customer_id'') (\<lambda>_.
     and_then (require_dt df ''order_date'') (\<lambda>_.
     and_then (require_all df customer_cols) (\<lambda>_.
       let dim_customer = map (customer_row df)
             (drop_duplicates_subset (\<lambda>r. cell_of r ''customer_id'') (rows df))
       in and_then (insert_dim_customer dim_customer db) (\<lambda>db.
            Inr (length dim_customer, db)))))"

subsection \<open>load\_dim\_product and load\_dim\_shipping\<close>

definition product_cols :: "string list" where
  "product_cols = [''product_id'', ''product_name'', ''category'', ''sub_category'']"

definition product_row :: "row \<Rightarrow> dim_product_row" where
  "product_row r =
     \<lparr>dim_product_row.product_key = 0,
      product_id = cell_of r ''product_id'',
      product_name = cell_of r ''product_name'',
      category = cell_of r ''category'',
      sub_category = cell_of r ''sub_category''\<rparr>"

definition insert_dim_product :: "dim_product_row list \<Rightarrow> database \<Rightarrow> error + database" where
  "insert_dim_product new db =
     (if NA \<in> set (map product_id new)
      then Inl (IntegrityError ''NOT NULL constraint failed: dim_product.product_id'')
      else if \<not> unique_ok (map product_id (dim_product db)) (map product_id new)
      then Inl (IntegrityError ''UNIQUE constraint failed: dim_product.product_id'')
      else Inr (db\<lparr>dim_product := dim_product db
                  @ with_keys (\<lambda>k r. r\<lparr>dim_product_row.product_key := k\<rparr>)
                      (next_key (map dim_product_row.product_key (dim_product db))) new\<rparr>))"

definition load_dim_product :: "frame \<Rightarrow> database \<Rightarrow> error + nat \<times> database" where
  "load_dim_product df db =
     and_then (require_all df product_cols) (\<lambda>_.
       let dim_product = map product_row
             (drop_duplicates_subset (\<lambda>r. cell_of r ''product_id'') (rows df))
       in and_then (insert_dim_product dim_product db) (\<lambda>db.
            Inr (length dim_product, db)))"

definition insert_dim_shipping :: "dim_shipping_row list \<Rightarrow> database \<Rightarrow> error + database" where
  "insert_dim_shipping new db =
     (if NA \<in> set (map ship_mode new)
      then Inl (IntegrityError ''NOT NULL constraint failed: dim_shipping.ship_mode'')
      else if \<not> unique_ok (map ship_mode (dim_shipping db)) (map ship_mode new)
      then Inl (IntegrityError ''UNIQUE constraint failed: dim_shipping.ship_mode'')
      else Inr (db\<lparr>dim_shipping := dim_shipping db
                  @ with_keys (\<lambda>k r. r\<lparr>dim_shipping_row.shipping_key := k\<rparr>)
                      (next_key (map dim_shipping_row.shipping_key (dim_shipping db))) new\<rparr>))"

definition load_dim_shipping :: "frame \<Rightarrow> database \<Rightarrow> error + nat \<times> database" where
  "load_dim_shipping df db =
     and_then (require df ''ship_mode'') (\<lambda>_.
       let dim_shipping = map (\<lambda>v. \<lparr>dim_shipping_row.shipping_key = 0, ship_mode = v\<rparr>)
             (drop_duplicates (col_values df ''ship_mode''))
       in and_then (insert_dim_shipping dim_shipping db) (\<lambda>db.
            Inr (length dim_shipping, db)))"

subsection \<open>load\_fact\_sales\<close>

text \<open>The three \<^verbatim>\<open>read_sql\<close> queries: surrogate key and natural key of every dimension row.\<close>

definition read_customers :: "database \<Rightarrow> (int \<times> cell) list" where
  "read_customers db = map (\<lambda>c. (dim_customer_row.customer_key c, customer_id c)) (dim_customer db)"

definition read_products :: "database \<Rightarrow> (int \<times> cell) list" where
  "read_products db = map (\<lambda>p. (dim_product_row.product_key p, product_id p)) (dim_product db)"

definition read_shipping :: "database \<Rightarrow> (int \<times> cell) list" where
  "read_shipping db = map (\<lambda>s. (dim_shipping_row.shipping_key s, ship_mode s)) (dim_shipping db)"

text \<open>\<^verbatim>\<open>pd.to_datetime(df[src]).dt.strftime('%Y%m%d').astype(int)\<close>, stored as column \<open>dst\<close>;
  a missing date cannot be cast to an integer.\<close>

definition date_key_col :: "string \<Rightarrow> string \<Rightarrow> frame \<Rightarrow> error + frame" where
  "date_key_col src dst df =
     and_then (require_dt df src) (\<lambda>_.
       if NA \<in> set (col_values df src)
       then Inl (ValueError ''cannot convert float NaN to integer'')
       else Inr (assign dst int64 (\<lambda>r. dt_int date_key_of (cell_of r src)) df))"

text \<open>
  \<^verbatim>\<open>df.merge(dim, on=..., how='left')\<close>: every row of the frame, in order, once for each
  dimension row with its natural key, or once with a missing key when there is none. (The
  key column is new to the frame: with a column of that name already there pandas renames
  both and the selection of \<^verbatim>\<open>fact_cols\<close> raises KeyError.)
\<close>

definition merge_row :: "string \<Rightarrow> string \<Rightarrow> (int \<times> cell) list \<Rightarrow> row \<Rightarrow> row list" where
  "merge_row on key_col dim_keys r =
     (case filter (\<lambda>(k, v). v = cell_of r on) dim_keys of
        [] \<Rightarrow> [AList.update key_col NA r]
      | ms \<Rightarrow> map (\<lambda>(k, v). AList.update key_col (Intg k) r) ms)"

definition merge_left :: "string \<Rightarrow> string \<Rightarrow> (int \<times> cell) list \<Rightarrow> frame \<Rightarrow> error + frame" where
  "merge_left on key_col dim_keys df =
     and_then (require df on) (\<lambda>_.
       if has_col df key_col then Inl (KeyError key_col)
       else Inr \<lparr>columns = AList.update key_col int64 (columns df),
                 rows = concat (map (merge_row on key_col dim_keys) (rows df))\<rparr>)"

definition fact_cols :: "string list" where
  "fact_cols = [''order_id'', ''order_date_key'', ''ship_date_key'', ''customer_key'',
     ''product_key'', ''shipping_key'', ''quantity'', ''sales'', ''discount'', ''profit'']"

text \<open>The columns of \<^verbatim>\<open>fact_cols\<close> that land in a NOT NULL column of fact\_sales.\<close>

definition fact_not_null :: "string list" where
  "fact_not_null = [''order_id'', ''order_date_key'', ''ship_date_key'', ''customer_key'',
     ''product_key'', ''shipping_key'', ''quantity'', ''sales'', ''profit'']"

definition int_of_cell :: "cell \<Rightarrow> int" where
  "int_of_cell v = (case v of Intg n \<Rightarrow> n | Flt x \<Rightarrow> \<lfloor>x\<rfloor> | _ \<Rightarrow> 0)"

definition fact_row :: "row \<Rightarrow> fact_sales_row" where
  "fact_row r =
     \<lparr>sales_key = 0,
      order_id = cell_of r ''order_id'',
      order_date_key = int_of_cell (cell_of r ''order_date_key''),
      ship_date_key = int_of_cell (cell_of r ''ship_date_key''),
      customer_key = int_of_cell (cell_of r ''customer_key''),
      product_key = int_of_cell (cell_of r ''product_key''),
      shipping_key = int_of_cell (cell_of r ''shipping_key''),
      quantity = cell_of r ''quantity'',
      sales_amount = cell_of r ''sales'',
      discount = cell_of r ''discount'',
      profit = cell_of r ''profit''\<rparr>"

definition insert_fact_sales :: "row list \<Rightarrow> database \<Rightarrow> error + database" where
  "insert_fact_sales fact_df db =
     (if list_ex (\<lambda>r. list_ex (\<lambda>c. cell_of r c = NA) fact_not_null) fact_df
      then Inl (IntegrityError ''NOT NULL constraint failed: fact_sales'')
      else Inr (db\<lparr>fact_sales := fact_sales db
                  @ with_keys (\<lambda>k r. r\<lparr>sales_key := k\<rparr>)
                      (next_key (map sales_key (fact_sales db))) (map fact_row fact_df)\<rparr>))"

definition load_fact_sales :: "frame \<Rightarrow> database \<Rightarrow> error + nat \<times> database" where
  "load_fact_sales df db =
     (let customers = read_customers db;
          products = read_products db;
          shipping = read_shipping db
      in and_then (date_key_col ''order_date'' ''order_date_key'' df) (\<lambda>df.
         and_then (date_key_col ''ship_date'' ''ship_date_key'' df) (\<lambda>df.
         and_then (merge_left ''customer_id'' ''customer_key'' customers df) (\<lambda>fact.
         and_then (merge_left ''product_id'' ''product_key'' products fact) (\<lambda>fact.
         and_then (merge_left ''ship_mode'' ''shipping_key'' shipping fact) (\<lambda>fact.
         and_then (require_all fact fact_cols) (\<lambda>_.
         and_then (insert_fact_sales (rows fact) db) (\<lambda>db.
           Inr (len fact, db)))))))))"

subsection \<open>validate\_load\<close>

text \<open>
  The six \<^verbatim>\<open>SELECT COUNT(*)\<close> queries, in the order of the \<^verbatim>\<open>tables\<close> dictionary, then
  the comparison of the fact count with \<^verbatim>\<open>source_rows\<close>.
\<close>

definition tables :: "(string \<times> (database \<Rightarrow> nat)) list" where
  "tables =
     [(''staging_raw_sales'', \<lambda>db. length (staging_raw_sales db)),
      (''dim_date'', \<lambda>db. length (dim_date db)),
      (''dim_customer'', \<lambda>db. length (dim_customer db)),
      (''dim_product'', \<lambda>db. length (dim_product db)),
      (''dim_shipping'', \<lambda>db. length (dim_shipping db)),
      (''fact_sales'', \<lambda>db. length (fact_sales db))]"

definition table_counts :: "database \<Rightarrow> (string \<times> nat) list" where
  "table_counts db = map (\<lambda>(table, query). (table, query db)) tables"

definition counts_at :: "(string \<times> nat) list \<Rightarrow> string \<Rightarrow> nat" where
  "counts_at counts table = (case map_of counts table of Some n \<Rightarrow> n | None \<Rightarrow> 0)"

definition mismatch_report :: "int \<Rightarrow> nat \<Rightarrow> string" where
  "mismatch_report source_rows fact_rows =
     cross_mark @ '' Row count mismatch! Source: '' @ fmt_comma source_rows
       @ '', Fact: '' @ fmt_comma (int fact_rows)"

definition row_count_mismatch :: error where
  "row_count_mismatch = ValueError ''Load validation failed - row count mismatch!''"

definition validate_load :: "database \<Rightarrow> int \<Rightarrow> error + (string \<times> nat) list" where
  "validate_load db source_rows =
     (let counts = table_counts db in
      if int (counts_at counts ''fact_sales'') \<noteq> source_rows
      then Inl row_count_mismatch
      else Inr counts)"

text \<open>What \<^verbatim>\<open>validate_load\<close> hands to the logger, in order.\<close>

definition validate_load_log :: "database \<Rightarrow> int \<Rightarrow> log_record list" where
  "validate_load_log db source_rows =
     (let counts = table_counts db in
      [(INFO, ''Validating loaded data...'')]
      @ map (\<lambda>(table, count). (INFO, ''   '' @ ljust 25 table @ '': '' @ fmt_comma (int count) @ '' rows''))
          counts
      @ (if int (counts_at counts ''fact_sales'') \<noteq> source_rows
         then [(ERROR, mismatch_report source_rows (counts_at counts ''fact_sales''))]
         else [(INFO, check_mark @ '' Load validation passed!''),
               (INFO, ''   Source rows  : '' @ fmt_comma source_rows @ '' = Fact rows: ''
                        @ fmt_comma (int (counts_at counts ''fact_sales'')))]))"

subsection \<open>load\_data\<close>

text \<open>
  The steps of \<^verbatim>\<open>load_data\<close> in order. The result is the outcome together with the
  database as the run leaves it: an exception leaves what the earlier steps have written.
  \<open>load_tables\<close> is steps 1 to 5 (the engine, the schema, the staging table, the four
  dimensions, the fact table); step 6 calls the reconciler with \<^verbatim>\<open>len(df)\<close>.
\<close>

definition load_tables :: "frame \<Rightarrow> database \<Rightarrow> (error + unit) \<times> database" where
  "load_tables df db =
     (let db = create_schema db in
      case load_staging df db of Inl e \<Rightarrow> (Inl e, db) | Inr (n, db) \<Rightarrow>
      case load_dim_date df db of Inl e \<Rightarrow> (Inl e, db) | Inr (n, db) \<Rightarrow>
      case load_dim_customer df db of Inl e \<Rightarrow> (Inl e, db) | Inr (n, db) \<Rightarrow>
      case load_dim_product df db of Inl e \<Rightarrow> (Inl e, db) | Inr (n, db) \<Rightarrow>
      case load_dim_shipping df db of Inl e \<Rightarrow> (Inl e, db) | Inr (n, db) \<Rightarrow>
      case load_fact_sales df db of Inl e \<Rightarrow> (Inl e, db) | Inr (n, db) \<Rightarrow>
      (Inr (), db))"

definition load_data :: "frame \<Rightarrow> database \<Rightarrow> (error + (string \<times> nat) list) \<times> database" where
  "load_data df db =
     (case load_tables df db of
        (Inl e, db) \<Rightarrow> (Inl e, db)
      | (Inr _, db) \<Rightarrow> (validate_load db (int (len df)), db))"

section \<open>The pipeline (main.py, run\_pipeline)\<close>

text \<open>
  \<^verbatim>\<open>run_pipeline\<close> on the frame that the extract phase has read: the transform phase, then
  the load phase on its result. The two summaries in between only compute metrics. An
  exception of either phase is logged and raised again.
\<close>

definition run_pipeline ::
  "date_parser \<Rightarrow> number_parser \<Rightarrow> frame \<Rightarrow> database
    \<Rightarrow> (error + (string \<times> nat) list) \<times> database" where
  "run_pipeline strptime to_number df_raw db =
     (case transform_data strptime to_number df_raw of
        Inl e \<Rightarrow> (Inl e, db)
      | Inr df_transformed \<Rightarrow> load_data df_transformed db)"

section \<open>Concrete inputs\<close>

text \<open>
  Parsers for the plain forms of a date (four digits, two digits, two digits, a real
  calendar day) and of a number (digits, with an optional sign and an optional fraction),
  and the four-row frame of the repository's test fixture \<^verbatim>\<open>sample_raw_df\<close>, whose
  fourth row repeats the first. They instantiate the theorems below.
\<close>

definition digit_val :: "char \<Rightarrow> nat option" where
  "digit_val c =
     (if 48 \<le> (of_char c :: nat) \<and> (of_char c :: nat) \<le> 57 then Some (of_char c - 48) else None)"

fun digits_val :: "nat \<Rightarrow> string \<Rightarrow> nat option" where
  "digits_val acc [] = Some acc"
| "digits_val acc (c # cs) =
     (case digit_val c of None \<Rightarrow> None | Some v \<Rightarrow> digits_val (acc * 10 + v) cs)"

definition strptime_Ymd :: date_parser where
  "strptime_Ymd s =
     (case s of
        [y1, y2, y3, y4, a, m1, m2, b, d1, d2] \<Rightarrow>
          (case (digits_val 0 [y1, y2, y3, y4], digits_val 0 [m1, m2], digits_val 0 [d1, d2]) of
             (Some y, Some m, Some d) \<Rightarrow>
               if a = CHR ''-'' \<and> b = CHR ''-'' \<and> 1 \<le> m \<and> m \<le> 12 \<and> 1 \<le> d
                  \<and> int d \<le> days_in_month (int y) (int m)
               then Some (Date (int y) (int m) (int d)) else None
           | _ \<Rightarrow> None)
      | _ \<Rightarrow> None)"

definition unsigned_decimal :: "string \<Rightarrow> (int + real) option" where
  "unsigned_decimal s =
     (let whole = takeWhile (\<lambda>c. c \<noteq> CHR ''.'') s;
          rest = dropWhile (\<lambda>c. c \<noteq> CHR ''.'') s
      in if whole = [] then None
         else case digits_val 0 whole of
           None \<Rightarrow> None
         | Some w \<Rightarrow>
             (case rest of
                [] \<Rightarrow> Some (Inl (int w))
              | point # ds \<Rightarrow>
                  (case digits_val 0 ds of
                     None \<Rightarrow> None
                   | Some f \<Rightarrow> Some (Inr (real w + real f / 10 ^ length ds)))))"

definition decimal :: number_parser where
  "decimal s =
     (case s of
        [] \<Rightarrow> None
      | c # cs \<Rightarrow>
          if c = CHR ''-''
          then (case unsigned_decimal cs of
                  None \<Rightarrow> None
                | Some (Inl n) \<Rightarrow> Some (Inl (- n))
                | Some (Inr x) \<Rightarrow> Some (Inr (- x)))
          else unsigned_decimal s)"

definition raw_columns :: "(string \<times> dtype) list" where
  "raw_columns =
     [(''Order ID'', object), (''Order Date'', object), (''Ship Date'', object),
      (''Ship Mode'', object), (''Customer ID'', object), (''Customer Name'', object),
      (''Segment'', object), (''Country'', object), (''City'', object), (''State'', object),
      (''Postal Code'', object), (''Region'', object), (''Product ID'', object),
      (''Category'', object), (''Sub-Category'', object), (''Product Name'', object),
      (''Sales'', float64), (''Quantity'', int64), (''Discount'', float64),
      (''Profit'', float64)]"

definition raw_row :: "cell list \<Rightarrow> row" where
  "raw_row vs = zip (map fst raw_columns) vs"

definition row_A :: row where
  "row_A = raw_row [Str ''CA-2019-001'', Str ''2019-01-03'', Str ''2019-01-07'',
     Str ''Standard Class'', Str ''CUST-001'', Str ''John Doe'', Str ''Consumer'',
     Str ''United States'', Str ''New York'', Str ''New York'', Str ''10001'', Str ''East'',
     Str ''PROD-001'', Str ''Technology'', Str ''Phones'', Str ''Phone A'',
     Flt 100, Intg 1, Flt 0, Flt 20]"

definition row_B :: row where
  "row_B = raw_row [Str ''CA-2019-002'', Str ''2019-01-04'', Str ''2019-01-08'',
     Str ''First Class'', Str ''CUST-002'', Str ''Jane Smith'', Str ''Corporate'',
     Str ''United States'', Str ''Los Angeles'', Str ''California'', Str ''90001'', Str ''West'',
     Str ''PROD-002'', Str ''Furniture'', Str ''Chairs'', Str ''Chair B'',
     Flt 200, Intg 2, Flt (1 / 10), Flt 40]"

definition row_C :: row where
  "row_C = raw_row [Str ''CA-2019-003'', Str ''2019-01-05'', Str ''2019-01-09'',
     Str ''Second Class'', Str ''CUST-003'', Str ''Bob Johnson'', Str ''Home Office'',
     Str ''United States'', Str ''Chicago'', Str ''Illinois'', Str ''60601'', Str ''Central'',
     Str ''PROD-003'', Str ''Office Supplies'', Str ''Paper'', Str ''Paper C'',
     Flt 50, Intg 3, Flt (2 / 10), Flt 10]"

definition sample_raw_df :: frame where
  "sample_raw_df = \<lparr>columns = raw_columns, rows = [row_A, row_B, row_C, row_A]\<rparr>"

text \<open>A frame with a missing value in a float, an integer, a date and a text column.\<close>

definition null_df :: frame where
  "null_df =
     \<lparr>columns = [(''sales'', float64), (''quantity'', Int64), (''order_date'', datetime64),
                 (''city'', object)],
      rows = [[(''sales'', NA), (''quantity'', Intg 2), (''order_date'', NA),
               (''city'', Str ''Rome'')],
              [(''sales'', Flt 5), (''quantity'', NA), (''order_date'', Ts (Date 2019 1 3)),
               (''city'', NA)]]\<rparr>"


definition empty_db :: database where
  "empty_db =
     \<lparr>staging_raw_sales = [], dim_date = [], dim_customer = [], dim_product = [],
      dim_shipping = [], fact_sales = []\<rparr>"

text \<open>
  A transformed frame of two line items of one order (one customer, one ship mode, two
  products, one order date, two ship dates), and the database that loading it produces.
\<close>

definition load_columns :: "(string \<times> dtype) list" where
  "load_columns =
     [(''order_id'', object), (''order_date'', datetime64), (''ship_date'', datetime64),
      (''ship_mode'', object), (''customer_id'', object), (''customer_name'', object),
      (''segment'', object), (''country'', object), (''city'', object), (''state'', object),
      (''postal_code'', object), (''region'', object), (''product_id'', object),
      (''category'', object), (''sub_category'', object), (''product_name'', object),
      (''sales'', float64), (''quantity'', Int64), (''discount'', float64),
      (''profit'', float64)]"

definition load_df :: frame where
  "load_df =
     \<lparr>columns = load_columns,
      rows = map (zip (map fst load_columns))
        [[Str ''O1'', Ts (Date 2019 1 3), Ts (Date 2019 1 7), Str ''First'', Str ''C1'',
          Str ''Ann'', Str ''Consumer'', Str ''US'', Str ''Rome'', Str ''NY'', Str ''10001'',
          Str ''East'', Str ''P1'', Str ''Tech'', Str ''Phones'', Str ''Phone'',
          Flt 100, Intg 1, Flt 0, Flt 20],
         [Str ''O1'', Ts (Date 2019 1 3), Ts (Date 2019 1 5), Str ''First'', Str ''C1'',
          Str ''Ann'', Str ''Consumer'', Str ''US'', Str ''Rome'', Str ''NY'', Str ''10001'',
          Str ''East'', Str ''P2'', Str ''Tech'', Str ''Cables'', Str ''Cable'',
          Flt 10, Intg 2, Flt 0, Flt 2]]\<rparr>"

definition loaded_db :: database where
  "loaded_db =
     \<lparr>staging_raw_sales =
        [[Str ''O1'', Str ''2019-01-03'', Str ''2019-01-07'', Str ''First'',
          Str ''C1'', Str ''Ann'', Str ''Consumer'', Str ''US'', Str ''Rome'',
          Str ''NY'', Str ''10001'', Str ''East'', Str ''P1'', Str ''Tech'',
          Str ''Phones'', Str ''Phone'', Flt 100, Intg 1, Flt 0, Flt 20],
         [Str ''O1'', Str ''2019-01-03'', Str ''2019-01-05'', Str ''First'',
          Str ''C1'', Str ''Ann'', Str ''Consumer'', Str ''US'', Str ''Rome'',
          Str ''NY'', Str ''10001'', Str ''East'', Str ''P2'', Str ''Tech'',
          Str ''Cables'', Str ''Cable'', Flt 10, Intg 2, Flt 0, Flt 2]],
      dim_date =
        [\<lparr>date_key = 20190103, full_date = ''2019-01-03'', year = 2019,
            quarter = 1, month = 1, month_name = ''January'', day = 3,
            day_of_week = 3, day_name = ''Thursday'', week_of_year = 1,
            is_weekend = 0\<rparr>,
         \<lparr>date_key = 20190105, full_date = ''2019-01-05'', year = 2019,
            quarter = 1, month = 1, month_name = ''January'', day = 5,
            day_of_week = 5, day_name = ''Saturday'', week_of_year = 1,
            is_weekend = 1\<rparr>,
         \<lparr>date_key = 20190107, full_date = ''2019-01-07'', year = 2019,
            quarter = 1, month = 1, month_name = ''January'', day = 7,
            day_of_week = 0, day_name = ''Monday'', week_of_year = 2,
            is_weekend = 0\<rparr>],
      dim_customer =
        [\<lparr>dim_customer_row.customer_key = 1, customer_id = Str ''C1'',
            customer_name = Str ''Ann'', segment = Str ''Consumer'',
            country = Str ''US'', city = Str ''Rome'', state = Str ''NY'',
            postal_code = Str ''10001'', region = Str ''East'',
            first_order_date = Str ''2019-01-03'',
            last_order_date = Str ''2019-01-03''\<rparr>],
      dim_product =
        [\<lparr>dim_product_row.product_key = 1, product_id = Str ''P1'',
            product_name = Str ''Phone'', category = Str ''Tech'',
            sub_category = Str ''Phones''\<rparr>,
         \<lparr>dim_product_row.product_key = 2, product_id = Str ''P2'',
            product_name = Str ''Cable'', category = Str ''Tech'',
            sub_category = Str ''Cables''\<rparr>],
      dim_shipping =
        [\<lparr>dim_shipping_row.shipping_key = 1, ship_mode = Str ''First''\<rparr>],
      fact_sales =
        [\<lparr>sales_key = 1, order_id = Str ''O1'', order_date_key = 20190103,
            ship_date_key = 20190107, customer_key = 1, product_key = 1,
            shipping_key = 1, quantity = Intg 1, sales_amount = Flt 100,
            discount = Flt 0, profit = Flt 20\<rparr>,
         \<lparr>sales_key = 2, order_id = Str ''O1'', order_date_key = 20190103,
            ship_date_key = 20190105, customer_key = 1, product_key = 2,
            shipping_key = 1, quantity = Intg 2, sales_amount = Flt 10,
            discount = Flt 0, profit = Flt 2\<rparr>]\<rparr>"

section \<open>Properties\<close>

subsection \<open>Basic facts about frames\<close>

lemma and_then_simps [simp]: "and_then (Inl e) f = Inl e" "and_then (Inr v) f = f v"
  by (simp_all add: and_then_def)

lemma and_then_Inr_iff: "and_then x f = Inr y \<longleftrightarrow> (\<exists>v. x = Inr v \<and> f v = Inr y)"
  by (cases x) auto

lemma cell_of_update: "cell_of (AList.update c v r) c' = (if c' = c then v else cell_of r c')"
  by (simp add: cell_of_def update_conv')

lemma col_values_assign:
  "col_values (assign c t f df) c' = (if c' = c then map f (rows df) else col_values df c')"
  by (simp add: col_values_def assign_def cell_of_update comp_def)

lemma rows_assign_length: "length (rows (assign c t f df)) = length (rows df)"
  by (simp add: assign_def)


lemma has_col_assign: "has_col (assign c t f df) c' \<longleftrightarrow> c' = c \<or> has_col df c'"
  by (auto simp: has_col_def assign_def dom_update image_iff)

subsection \<open>The weekend flag\<close>


subsection \<open>Deduplication before derivation\<close>

lemma keep_first_keys:
  "key ` set (keep_first key seen xs) = key ` set xs - set seen"
  by (induction xs arbitrary: seen) auto

lemma keep_first_subset: "set (keep_first key seen xs) \<subseteq> set xs"
  by (induction xs arbitrary: seen) auto

lemma keep_first_distinct: "distinct (map key (keep_first key seen xs))"
proof (induction xs arbitrary: seen)
  case Nil
  show ?case by simp
next
  case (Cons x xs)
  have "key x \<notin> key ` set (keep_first key (key x # seen) xs)"
    by (simp add: keep_first_keys)
  with Cons show ?case by simp
qed

lemma keep_first_unchanged:
  "distinct (map key xs) \<Longrightarrow> key ` set xs \<inter> set seen = {} \<Longrightarrow> keep_first key seen xs = xs"
  by (induction xs arbitrary: seen) auto

lemma drop_duplicates_set: "set (drop_duplicates xs) = set xs"
  using keep_first_keys [of "\<lambda>x. x" "[]" xs] by (simp add: drop_duplicates_def)

lemma drop_duplicates_distinct: "distinct (drop_duplicates xs)"
  using keep_first_distinct [of "\<lambda>x. x" "[]" xs] by (simp add: drop_duplicates_def)

lemma drop_duplicates_length: "length (drop_duplicates xs) = card (set xs)"
  using distinct_card [OF drop_duplicates_distinct, of xs] by (simp add: drop_duplicates_set)

lemma drop_duplicates_unchanged: "distinct xs \<Longrightarrow> drop_duplicates xs = xs"
  using keep_first_unchanged [of "\<lambda>x. x" xs "[]"] by (simp add: drop_duplicates_def)

lemma assign_numeric_length: "length (rows (assign_numeric c t f df)) = length (rows df)"
  by (simp add: assign_numeric_def rows_assign_length)

lemma to_datetime_col_length:
  "to_datetime_col p c df = Inr d \<Longrightarrow> length (rows d) = length (rows df)"
  by (auto simp: to_datetime_col_def and_then_Inr_iff rows_assign_length)

lemma to_numeric_col_length:
  "to_numeric_col p c df = Inr d \<Longrightarrow> length (rows d) = length (rows df)"
  by (auto simp: to_numeric_col_def and_then_Inr_iff assign_numeric_length)

lemma astype_Int64_length:
  "astype_Int64 c df = Inr d \<Longrightarrow> length (rows d) = length (rows df)"
  by (auto simp: astype_Int64_def rows_assign_length split: if_splits)

lemma fix_data_types_length:
  assumes "fix_data_types p n df = Inr d"
  shows "length (rows d) = length (rows df)"
  using assms unfolding fix_data_types_def and_then_Inr_iff
  by (auto dest!: to_datetime_col_length to_numeric_col_length astype_Int64_length)

lemma transform_data_alt:
  "transform_data p n df =
     and_then (derivation_input p n df) (\<lambda>d.
     and_then (add_derived_columns d) (\<lambda>d.
     and_then (validate_data (handle_nulls d)) (\<lambda>_. Inr (handle_nulls d))))"
  by (simp add: transform_data_def derivation_input_def Let_def)

lemma clean_rows_inj:
  assumes "\<forall>r \<in> set rs. map fst r = ks"
  shows "inj_on (map (\<lambda>(c, v). (clean_name c, v))) (set rs)"
proof (rule inj_onI)
  fix r r' assume a: "r \<in> set rs" "r' \<in> set rs"
    and e: "map (\<lambda>(c, v). (clean_name c, v)) r = map (\<lambda>(c, v). (clean_name c, v)) r'"
  from e have "map snd (map (\<lambda>(c, v). (clean_name c, v)) r) = map snd (map (\<lambda>(c, v). (clean_name c, v)) r')"
    by simp
  then have "map snd r = map snd r'" by (simp add: comp_def case_prod_unfold)
  moreover from a assms have "map fst r = map fst r'" by simp
  ultimately show "r = r'" by (metis zip_map_fst_snd)
qed


text \<open>
  Claim C7. \<^verbatim>\<open>transform_data\<close> hands to \<^verbatim>\<open>add_derived_columns\<close> the frame that
  \<^verbatim>\<open>fix_data_types\<close> makes of the deduplicated frame, which has one row for every distinct
  row of the batch (as many as the input has distinct rows when every row has the columns of
  the header); \<^verbatim>\<open>remove_duplicates\<close> leaves no row twice, loses none, keeps the columns,
  and returns a frame without duplicate rows as it is. For the rows A, B, C, A of the test
  fixture the count is 3.
\<close>

theorem dedup_before_derivation:
  "transform_data p n df =
     and_then (derivation_input p n df) (\<lambda>d.
     and_then (add_derived_columns d) (\<lambda>d.
     and_then (validate_data (handle_nulls d)) (\<lambda>_. Inr (handle_nulls d))))
   \<and> derivation_input p n df = fix_data_types p n (remove_duplicates (clean_column_names df))
   \<and> (\<forall>d. derivation_input p n df = Inr d \<longrightarrow>
         len d = card (set (rows (clean_column_names df))))
   \<and> ((\<forall>r \<in> set (rows df). map fst r = map fst (columns df)) \<longrightarrow>
         card (set (rows (clean_column_names df))) = card (set (rows df)))
   \<and> distinct (rows (remove_duplicates df))
   \<and> set (rows (remove_duplicates df)) = set (rows df)
   \<and> len (remove_duplicates df) = card (set (rows df))
   \<and> columns (remove_duplicates df) = columns df
   \<and> (distinct (rows df) \<longrightarrow> remove_duplicates df = df)"
proof -
  have a: "\<forall>d. derivation_input p n df = Inr d \<longrightarrow>
         len d = card (set (rows (clean_column_names df)))"
  proof (intro allI impI)
    fix d assume "derivation_input p n df = Inr d"
    then have "length (rows d) = length (rows (remove_duplicates (clean_column_names df)))"
      unfolding derivation_input_def by (rule fix_data_types_length)
    then show "len d = card (set (rows (clean_column_names df)))"
      by (simp add: len_def remove_duplicates_def drop_duplicates_length)
  qed
  have b: "(\<forall>r \<in> set (rows df). map fst r = map fst (columns df)) \<longrightarrow>
         card (set (rows (clean_column_names df))) = card (set (rows df))"
  proof
    assume "\<forall>r \<in> set (rows df). map fst r = map fst (columns df)"
    then have "inj_on (map (\<lambda>(c, v). (clean_name c, v))) (set (rows df))"
      by (rule clean_rows_inj)
    then show "card (set (rows (clean_column_names df))) = card (set (rows df))"
      by (simp add: clean_column_names_def card_image)
  qed
  have c: "distinct (rows df) \<longrightarrow> remove_duplicates df = df"
    by (simp add: remove_duplicates_def drop_duplicates_unchanged)
  show ?thesis
    using a b c
    by (simp add: transform_data_alt derivation_input_def remove_duplicates_def len_def
        drop_duplicates_distinct drop_duplicates_set drop_duplicates_length)
qed

lemma sample_rows_distinct: "distinct [row_A, row_B, row_C]"
  by code_simp

lemma sample_rows_wf: "\<forall>r \<in> set (rows sample_raw_df). map fst r = map fst (columns sample_raw_df)"
  by code_simp

lemma sample_derivation_ok: "\<not> isl (derivation_input strptime_Ymd decimal sample_raw_df)"
  by code_simp

theorem dedup_before_derivation_witness:
  "(\<exists>d. derivation_input strptime_Ymd decimal sample_raw_df = Inr d \<and> len d = 3)
   \<and> card (set (rows sample_raw_df)) = 3
   \<and> remove_duplicates (sample_raw_df\<lparr>rows := [row_A, row_B, row_C]\<rparr>)
       = sample_raw_df\<lparr>rows := [row_A, row_B, row_C]\<rparr>"
proof -
  have three: "card (set (rows sample_raw_df)) = 3"
  proof -
    have "set (rows sample_raw_df) = set [row_A, row_B, row_C]"
      by (auto simp: sample_raw_df_def)
    then show ?thesis
      using distinct_card [OF sample_rows_distinct] by simp
  qed
  obtain d where d: "derivation_input strptime_Ymd decimal sample_raw_df = Inr d"
    using sample_derivation_ok by (cases "derivation_input strptime_Ymd decimal sample_raw_df") auto
  have "len d = 3"
    using dedup_before_derivation [of strptime_Ymd decimal sample_raw_df] d three sample_rows_wf
    by simp
  moreover have "remove_duplicates (sample_raw_df\<lparr>rows := [row_A, row_B, row_C]\<rparr>)
       = sample_raw_df\<lparr>rows := [row_A, row_B, row_C]\<rparr>"
    using dedup_before_derivation [of strptime_Ymd decimal "sample_raw_df\<lparr>rows := [row_A, row_B, row_C]\<rparr>"]
      sample_rows_distinct by simp
  ultimately show ?thesis using d three by simp
qed

subsection \<open>Null reconciliation\<close>

lemma fill_value_not_NA: "fill_value t \<noteq> NA" "NA \<noteq> fill_value t"
  by (simp_all add: fill_value_def zero_of_def)

lemma isnull_sum_0: "isnull_sum vs = 0 \<longleftrightarrow> NA \<notin> set vs"
  by (auto simp: isnull_sum_def filter_empty_conv)

lemma map_filled_id: "NA \<notin> set vs \<Longrightarrow> map (\<lambda>v. if v = NA then w else v) vs = vs"
  by (induction vs) auto

lemma col_values_fillna:
  "col_values (fillna c w t df) c' =
     (if c' = c then map (\<lambda>v. if v = NA then w else v) (col_values df c) else col_values df c')"
  by (simp add: fillna_def col_values_assign) (simp add: col_values_def)

lemma col_dtype_assign:
  "col_dtype (assign c t f df) c' = (if c' = c then t else col_dtype df c')"
  by (simp add: col_dtype_def assign_def update_conv')

lemma col_values_handle_col:
  "col_values (handle_col c df) c' =
     (if c' = c then map (\<lambda>v. if v = NA then fill_value (col_dtype df c) else v) (col_values df c)
      else col_values df c')"
  by (auto simp: handle_col_def Let_def col_values_fillna fill_value_def isnull_sum_0 map_filled_id)

lemma col_dtype_handle_col_other: "c' \<noteq> c \<Longrightarrow> col_dtype (handle_col c df) c' = col_dtype df c'"
  by (simp add: handle_col_def Let_def fillna_def col_dtype_assign)

lemma names_assign:
  "has_col df c \<Longrightarrow> map fst (columns (assign c t f df)) = map fst (columns df)"
  by (simp add: assign_def update_keys has_col_def)

lemma names_handle_col:
  "has_col df c \<Longrightarrow> map fst (columns (handle_col c df)) = map fst (columns df)"
  by (simp add: handle_col_def Let_def fillna_def names_assign)

lemma has_col_cong: "map fst (columns df') = map fst (columns df) \<Longrightarrow> has_col df' c = has_col df c"
  by (simp add: has_col_def)

lemma rows_handle_col_length: "length (rows (handle_col c df)) = length (rows df)"
  by (simp add: handle_col_def Let_def fillna_def rows_assign_length)

lemma fold_handle_col_names:
  "list_all (has_col df) cs \<Longrightarrow>
     map fst (columns (fold handle_col cs df)) = map fst (columns df)"
proof (induction cs arbitrary: df)
  case Nil
  show ?case by simp
next
  case (Cons c cs)
  then have n: "map fst (columns (handle_col c df)) = map fst (columns df)"
    by (simp add: names_handle_col)
  then have "list_all (has_col (handle_col c df)) cs"
    using Cons.prems by (simp add: list_all_iff has_col_cong [OF n])
  then show ?case
    using Cons.IH [of "handle_col c df"] n by simp
qed

lemma all_has_col: "list_all (has_col df) (map fst (columns df))"
  by (simp add: list_all_iff has_col_def)

lemma fold_handle_col_length: "length (rows (fold handle_col cs df)) = length (rows df)"
  by (induction cs arbitrary: df) (simp_all add: rows_handle_col_length)

lemma fold_handle_col_values:
  "col_values (fold handle_col cs df) c' =
     (if c' \<in> set cs
      then map (\<lambda>v. if v = NA then fill_value (col_dtype df c') else v) (col_values df c')
      else col_values df c')"
proof (induction cs arbitrary: df)
  case Nil
  show ?case by simp
next
  case (Cons c cs)
  show ?case
  proof (cases "c' = c")
    case True
    have 1: "col_values (handle_col c df) c =
        map (\<lambda>v. if v = NA then fill_value (col_dtype df c) else v) (col_values df c)"
      by (simp add: col_values_handle_col)
    have 2: "NA \<notin> set (col_values (handle_col c df) c)"
      unfolding 1 by (auto simp: fill_value_not_NA)
    have "col_values (fold handle_col cs (handle_col c df)) c = col_values (handle_col c df) c"
      using Cons.IH [of "handle_col c df"] 2 True by (simp add: map_filled_id)
    then show ?thesis
      using True 1 by simp
  next
    case False
    then show ?thesis
      using Cons.IH [of "handle_col c df"]
      by (simp add: col_values_handle_col col_dtype_handle_col_other)
  qed
qed

lemma sum_list_0: "sum_list (map g cs) = (0::nat) \<longleftrightarrow> (\<forall>c. c \<in> set cs \<longrightarrow> g c = 0)"
  by (induction cs) auto

lemma isnull_sum_sum_0:
  "isnull_sum_sum df = 0 \<longleftrightarrow> (\<forall>c. has_col df c \<longrightarrow> NA \<notin> set (col_values df c))"
  unfolding isnull_sum_sum_def sum_list_0 has_col_def isnull_sum_0 ..

lemma handle_nulls_values:
  assumes "has_col df c"
  shows "col_values (handle_nulls df) c =
     map (\<lambda>v. if v = NA then fill_value (col_dtype df c) else v) (col_values df c)"
proof (cases "isnull_sum_sum df = 0")
  case True
  with assms have "NA \<notin> set (col_values df c)"
    by (simp add: isnull_sum_sum_0)
  with True show ?thesis
    by (simp add: handle_nulls_def map_filled_id)
next
  case False
  with assms show ?thesis
    by (simp add: handle_nulls_def fold_handle_col_values has_col_def)
qed

lemma handle_nulls_names: "map fst (columns (handle_nulls df)) = map fst (columns df)"
  by (simp add: handle_nulls_def Let_def fold_handle_col_names all_has_col)

lemma handle_nulls_length: "length (rows (handle_nulls df)) = length (rows df)"
  by (simp add: handle_nulls_def Let_def fold_handle_col_length)

text \<open>
  Claim C5. After \<^verbatim>\<open>handle_nulls\<close> no column of the frame holds a missing value; the
  columns and the number of rows are those of the input; in every column a value that was
  present is unchanged, and a missing value has become 0 when the column's dtype is one of
  float64, int64 and Int64 (the dtypes the source tests for), and the text 'Unknown' in a
  column of any other dtype.
\<close>

theorem handle_nulls_fills:
  "isnull_sum_sum (handle_nulls df) = 0
   \<and> map fst (columns (handle_nulls df)) = map fst (columns df)
   \<and> len (handle_nulls df) = len df
   \<and> (\<forall>c. has_col df c \<longrightarrow>
        col_values (handle_nulls df) c =
          map (\<lambda>v. if v \<noteq> NA then v
                    else if col_dtype df c = float64 then Flt 0
                    else if col_dtype df c = int64 \<or> col_dtype df c = Int64 then Intg 0
                    else Str ''Unknown'')
            (col_values df c))"
proof -
  have f: "(\<lambda>v. if v = NA then fill_value t else v) =
      (\<lambda>v. if v \<noteq> NA then v
                    else if t = float64 then Flt 0
                    else if t = int64 \<or> t = Int64 then Intg 0
                    else Str ''Unknown'')" for t
    by (auto simp: fill_value_def zero_of_def fun_eq_iff)
  have v: "\<forall>c. has_col df c \<longrightarrow>
        col_values (handle_nulls df) c =
          map (\<lambda>v. if v = NA then fill_value (col_dtype df c) else v) (col_values df c)"
    using handle_nulls_values by blast
  have "NA \<notin> set (col_values (handle_nulls df) c)" if "has_col df c" for c
    using v that by (auto simp: fill_value_not_NA)
  then have "isnull_sum_sum (handle_nulls df) = 0"
    by (simp add: isnull_sum_sum_0 has_col_cong [OF handle_nulls_names])
  then show ?thesis
    using v by (simp add: f handle_nulls_names handle_nulls_length len_def)
qed


lemma null_df_cols:
  "has_col null_df ''sales''" "has_col null_df ''quantity''"
  "has_col null_df ''order_date''" "has_col null_df ''city''"
  by code_simp+

lemma null_df_dtypes:
  "col_dtype null_df ''sales'' = float64" "col_dtype null_df ''quantity'' = Int64"
  "col_dtype null_df ''order_date'' = datetime64" "col_dtype null_df ''city'' = object"
  by code_simp+

lemma null_df_values:
  "col_values null_df ''sales'' = [NA, Flt 5]"
  "col_values null_df ''quantity'' = [Intg 2, NA]"
  "col_values null_df ''order_date'' = [NA, Ts (Date 2019 1 3)]"
  "col_values null_df ''city'' = [Str ''Rome'', NA]"
  by code_simp+

theorem handle_nulls_fills_witness:
  "isnull_sum_sum null_df = 4
   \<and> isnull_sum_sum (handle_nulls null_df) = 0
   \<and> col_values (handle_nulls null_df) ''sales'' = [Flt 0, Flt 5]
   \<and> col_values (handle_nulls null_df) ''quantity'' = [Intg 2, Intg 0]
   \<and> col_values (handle_nulls null_df) ''order_date'' = [Str ''Unknown'', Ts (Date 2019 1 3)]
   \<and> col_values (handle_nulls null_df) ''city'' = [Str ''Rome'', Str ''Unknown'']"
proof -
  have "isnull_sum_sum null_df = 4"
    by code_simp
  then show ?thesis
    using handle_nulls_fills [of null_df] null_df_cols
    by (simp add: null_df_dtypes null_df_values)
qed

subsection \<open>The profit margin\<close>
















subsection \<open>Keys, merges and the loading steps\<close>

lemma with_keys_length [simp]: "length (with_keys put k xs) = length xs"
  by (induction xs arbitrary: k) auto

lemma with_keys_map:
  assumes "\<And>k x. g (put k x) = g x"
  shows "map g (with_keys put k xs) = map g xs"
  by (induction xs arbitrary: k) (auto simp: assms)

lemma with_keys_lower:
  assumes "\<And>k x. key (put k x) = k"
  shows "y \<in> set (with_keys put k xs) \<Longrightarrow> k \<le> key y"
proof (induction xs arbitrary: k)
  case Nil
  then show ?case by simp
next
  case (Cons x xs)
  then show ?case using assms by (fastforce simp: assms)
qed

lemma with_keys_distinct:
  assumes "\<And>k x. key (put k x) = k"
  shows "distinct (map key (with_keys put k xs))"
proof (induction xs arbitrary: k)
  case Nil
  show ?case by simp
next
  case (Cons x xs)
  have "k \<notin> key ` set (with_keys put (k + 1) xs)"
    using with_keys_lower [of key put _ "k + 1" xs, OF assms] by fastforce
  with Cons show ?case by (simp add: assms)
qed

lemma fold_max_ge: "(a::int) \<le> fold max ks a"
  by (induction ks arbitrary: a) (auto intro: order_trans [OF max.cobounded2])

lemma fold_max_upper: "x \<in> set ks \<Longrightarrow> (x::int) \<le> fold max ks a"
proof (induction ks arbitrary: a)
  case Nil
  then show ?case by simp
next
  case (Cons k ks)
  then show ?case
    using fold_max_ge [of "max k a" ks] by auto
qed

lemma next_key_fresh: "x \<in> set ks \<Longrightarrow> x < next_key ks"
  using fold_max_upper [of x ks 0] by (simp add: next_key_def)

lemma keys_append_distinct:
  assumes put: "\<And>k x. key (put k x) = k" and d: "distinct (map key old)"
  shows "distinct (map key (old @ with_keys put (next_key (map key old)) new))"
proof -
  have "key y \<notin> key ` set old" if "y \<in> set (with_keys put (next_key (map key old)) new)" for y
  proof
    assume "key y \<in> key ` set old"
    then have "key y < next_key (map key old)"
      by (auto intro: next_key_fresh)
    moreover have "next_key (map key old) \<le> key y"
      using with_keys_lower [of key put y, OF put that] .
    ultimately show False by simp
  qed
  then have "key ` set old \<inter> key ` set (with_keys put (next_key (map key old)) new) = {}"
    by (intro equals0I) (metis IntE imageE)
  then show ?thesis
    using d with_keys_distinct [of key put, OF put] by simp
qed

lemma unique_ok_distinct:
  "unique_ok old new \<Longrightarrow> distinct old \<Longrightarrow> distinct (old @ new)"
  by (auto simp: unique_ok_def list_all_iff)


lemma keep_first_map: "map key (keep_first key seen xs) = keep_first (\<lambda>x. x) seen (map key xs)"
  by (induction xs arbitrary: seen) auto

lemma load_staging_Inr:
  assumes "load_staging df db = Inr (n, db')"
  shows "\<exists>new. db' = db\<lparr>staging_raw_sales := staging_raw_sales db @ new\<rparr> \<and> length new = len df
       \<and> datetime_col df ''order_date'' \<and> datetime_col df ''ship_date''"
  using assms
  by (auto simp: load_staging_def and_then_Inr_iff require_dt_def len_def Let_def split: if_splits)

lemma load_dim_date_Inr:
  assumes "load_dim_date df db = Inr (n, db')"
  shows "db' = db\<lparr>dim_date := dim_date db @ map date_row (all_dates df)\<rparr>
       \<and> unique_ok (map date_key (dim_date db)) (map date_key (map date_row (all_dates df)))"
  using assms
  by (auto simp: load_dim_date_def and_then_Inr_iff insert_dim_date_def Let_def split: if_splits)

lemma load_dim_customer_Inr:
  assumes "load_dim_customer df db = Inr (n, db')"
  shows "\<exists>new. db' = db\<lparr>dim_customer := dim_customer db @ new\<rparr>
       \<and> map customer_id new = drop_duplicates (col_values df ''customer_id'')
       \<and> unique_ok (map customer_id (dim_customer db)) (map customer_id new)
       \<and> (distinct (map dim_customer_row.customer_key (dim_customer db)) \<longrightarrow>
            distinct (map dim_customer_row.customer_key (dim_customer db @ new)))"
proof -
  define src where "src = map (customer_row df)
             (drop_duplicates_subset (\<lambda>r. cell_of r ''customer_id'') (rows df))"
  define new where "new = with_keys (\<lambda>k r. r\<lparr>dim_customer_row.customer_key := k\<rparr>)
                      (next_key (map dim_customer_row.customer_key (dim_customer db))) src"
  have ids: "map customer_id new = map customer_id src"
    unfolding new_def by (rule with_keys_map) simp
  have src_ids: "map customer_id src = drop_duplicates (col_values df ''customer_id'')"
    by (simp add: src_def customer_row_def Let_def drop_duplicates_subset_def drop_duplicates_def
        col_values_def comp_def keep_first_map [symmetric])
  have keys: "distinct (map dim_customer_row.customer_key (dim_customer db)) \<longrightarrow>
            distinct (map dim_customer_row.customer_key (dim_customer db @ new))"
    unfolding new_def by (rule impI, rule keys_append_distinct) simp_all
  from assms have "insert_dim_customer src db = Inr db'"
    by (auto simp: load_dim_customer_def and_then_Inr_iff Let_def src_def)
  then have "db' = db\<lparr>dim_customer := dim_customer db @ new\<rparr>
      \<and> unique_ok (map customer_id (dim_customer db)) (map customer_id src)"
    by (auto simp: insert_dim_customer_def new_def split: if_splits)
  then show ?thesis
    using ids src_ids keys by auto
qed

lemma load_dim_product_Inr:
  assumes "load_dim_product df db = Inr (n, db')"
  shows "\<exists>new. db' = db\<lparr>dim_product := dim_product db @ new\<rparr>
       \<and> map product_id new = drop_duplicates (col_values df ''product_id'')
       \<and> unique_ok (map product_id (dim_product db)) (map product_id new)
       \<and> (distinct (map dim_product_row.product_key (dim_product db)) \<longrightarrow>
            distinct (map dim_product_row.product_key (dim_product db @ new)))"
proof -
  define src where "src = map product_row
             (drop_duplicates_subset (\<lambda>r. cell_of r ''product_id'') (rows df))"
  define new where "new = with_keys (\<lambda>k r. r\<lparr>dim_product_row.product_key := k\<rparr>)
                      (next_key (map dim_product_row.product_key (dim_product db))) src"
  have ids: "map product_id new = map product_id src"
    unfolding new_def by (rule with_keys_map) simp
  have src_ids: "map product_id src = drop_duplicates (col_values df ''product_id'')"
    by (simp add: src_def product_row_def drop_duplicates_subset_def drop_duplicates_def
        col_values_def comp_def keep_first_map [symmetric])
  have keys: "distinct (map dim_product_row.product_key (dim_product db)) \<longrightarrow>
            distinct (map dim_product_row.product_key (dim_product db @ new))"
    unfolding new_def by (rule impI, rule keys_append_distinct) simp_all
  from assms have "insert_dim_product src db = Inr db'"
    by (auto simp: load_dim_product_def and_then_Inr_iff Let_def src_def)
  then have "db' = db\<lparr>dim_product := dim_product db @ new\<rparr>
      \<and> unique_ok (map product_id (dim_product db)) (map product_id src)"
    by (auto simp: insert_dim_product_def new_def split: if_splits)
  then show ?thesis
    using ids src_ids keys by auto
qed

lemma load_dim_shipping_Inr:
  assumes "load_dim_shipping df db = Inr (n, db')"
  shows "\<exists>new. db' = db\<lparr>dim_shipping := dim_shipping db @ new\<rparr>
       \<and> map ship_mode new = drop_duplicates (col_values df ''ship_mode'')
       \<and> unique_ok (map ship_mode (dim_shipping db)) (map ship_mode new)
       \<and> (distinct (map dim_shipping_row.shipping_key (dim_shipping db)) \<longrightarrow>
            distinct (map dim_shipping_row.shipping_key (dim_shipping db @ new)))"
proof -
  define src where "src = map (\<lambda>v. \<lparr>dim_shipping_row.shipping_key = 0, ship_mode = v\<rparr>)
             (drop_duplicates (col_values df ''ship_mode''))"
  define new where "new = with_keys (\<lambda>k r. r\<lparr>dim_shipping_row.shipping_key := k\<rparr>)
                      (next_key (map dim_shipping_row.shipping_key (dim_shipping db))) src"
  have ids: "map ship_mode new = map ship_mode src"
    unfolding new_def by (rule with_keys_map) simp
  have src_ids: "map ship_mode src = drop_duplicates (col_values df ''ship_mode'')"
    by (simp add: src_def comp_def)
  have keys: "distinct (map dim_shipping_row.shipping_key (dim_shipping db)) \<longrightarrow>
            distinct (map dim_shipping_row.shipping_key (dim_shipping db @ new))"
    unfolding new_def by (rule impI, rule keys_append_distinct) simp_all
  from assms have "insert_dim_shipping src db = Inr db'"
    by (auto simp: load_dim_shipping_def and_then_Inr_iff Let_def src_def)
  then have "db' = db\<lparr>dim_shipping := dim_shipping db @ new\<rparr>
      \<and> unique_ok (map ship_mode (dim_shipping db)) (map ship_mode src)"
    by (auto simp: insert_dim_shipping_def new_def split: if_splits)
  then show ?thesis
    using ids src_ids keys by auto
qed

lemma filter_unique:
  "distinct (map snd keys) \<Longrightarrow> length (filter (\<lambda>(k, v). v = x) keys) \<le> 1"
proof (induction keys)
  case Nil
  show ?case by simp
next
  case (Cons a keys)
  obtain k v where a: "a = (k, v)" by (cases a)
  show ?case
  proof (cases "v = x")
    case True
    with Cons.prems a have "x \<notin> snd ` set keys" by simp
    then have "filter (\<lambda>(k, v). v = x) keys = []"
      by (force simp: filter_empty_conv)
    with True a show ?thesis by simp
  next
    case False
    with Cons a show ?thesis by simp
  qed
qed

lemma merge_row_length:
  assumes "distinct (map snd keys)"
  shows "length (merge_row on k keys r) = 1"
proof -
  have "length (filter (\<lambda>(k, v). v = cell_of r on) keys) \<le> 1"
    using assms by (rule filter_unique)
  then show ?thesis
    by (cases "filter (\<lambda>(k, v). v = cell_of r on) keys") (simp_all add: merge_row_def)
qed

lemma merge_row_cells:
  assumes "r' \<in> set (merge_row on k keys r)"
  shows "(\<forall>c. c \<noteq> k \<longrightarrow> cell_of r' c = cell_of r c)
       \<and> (cell_of r' k = NA \<or> (\<exists>key. key \<in> fst ` set keys \<and> cell_of r' k = Intg key))"
proof (cases "filter (\<lambda>(k, v). v = cell_of r on) keys")
  case Nil
  with assms show ?thesis
    by (simp add: merge_row_def cell_of_update)
next
  case (Cons m ms)
  with assms have "r' \<in> (\<lambda>(key, v). AList.update k (Intg key) r) ` set (m # ms)"
    by (simp add: merge_row_def)
  then obtain key v where kv: "(key, v) \<in> set (m # ms)" "r' = AList.update k (Intg key) r"
    by (auto simp: case_prod_unfold) (metis prod.collapse)+
  from kv(1) have "(key, v) \<in> set (filter (\<lambda>(k, v). v = cell_of r on) keys)"
    unfolding Cons .
  then have "(key, v) \<in> set keys"
    by auto
  then have "key \<in> fst ` set keys"
    by force
  with kv(2) show ?thesis
    by (auto simp: cell_of_update)
qed

lemma concat_singletons:
  "(\<And>r. length (g r) = 1) \<Longrightarrow> length (concat (map g rs)) = length rs"
  by (induction rs) auto

lemma merge_left_Inr:
  assumes "merge_left on k keys df = Inr d"
  shows "rows d = concat (map (merge_row on k keys) (rows df))"
  using assms by (auto simp: merge_left_def and_then_Inr_iff split: if_splits)

lemma merge_left_length:
  assumes "merge_left on k keys df = Inr d" "distinct (map snd keys)"
  shows "length (rows d) = length (rows df)"
  using merge_left_Inr [OF assms(1)] merge_row_length [OF assms(2)]
  by (simp add: concat_singletons)

lemma merge_left_cells:
  assumes "merge_left on k keys df = Inr d" "r' \<in> set (rows d)"
  shows "\<exists>r \<in> set (rows df). (\<forall>c. c \<noteq> k \<longrightarrow> cell_of r' c = cell_of r c)
       \<and> (cell_of r' k = NA \<or> (\<exists>key. key \<in> fst ` set keys \<and> cell_of r' k = Intg key))"
proof -
  from assms obtain r where "r \<in> set (rows df)" "r' \<in> set (merge_row on k keys r)"
    unfolding merge_left_Inr [OF assms(1)] by auto
  then show ?thesis
    using merge_row_cells [of r' on k keys r] by blast
qed

lemma date_key_col_Inr:
  assumes "date_key_col src dst df = Inr d"
  shows "d = assign dst int64 (\<lambda>r. dt_int date_key_of (cell_of r src)) df
       \<and> list_all date_cell (col_values df src) \<and> NA \<notin> set (col_values df src)"
  using assms
  by (auto simp: date_key_col_def and_then_Inr_iff require_dt_def datetime_col_def split: if_splits)

lemma date_cell_Ts: "date_cell v \<Longrightarrow> v \<noteq> NA \<Longrightarrow> \<exists>d. v = Ts d"
  by (cases v) (simp_all add: date_cell_def)

lemma with_keys_elem:
  "f \<in> set (with_keys put k xs) \<Longrightarrow> \<exists>x \<in> set xs. \<exists>k'. f = put k' x"
  by (induction xs arbitrary: k) auto

lemma not_null_cells:
  assumes "\<not> list_ex (\<lambda>r. list_ex (\<lambda>c. cell_of r c = NA) fact_not_null) rs" "r \<in> set rs"
  shows "cell_of r ''customer_key'' \<noteq> NA" "cell_of r ''product_key'' \<noteq> NA"
    "cell_of r ''shipping_key'' \<noteq> NA"
  using assms by (auto simp: list_ex_iff fact_not_null_def)

lemma fst_read_customers:
  "fst ` set (read_customers db) = set (map dim_customer_row.customer_key (dim_customer db))"
  "map snd (read_customers db) = map customer_id (dim_customer db)"
  by (auto simp: read_customers_def image_iff)

lemma fst_read_products:
  "fst ` set (read_products db) = set (map dim_product_row.product_key (dim_product db))"
  "map snd (read_products db) = map product_id (dim_product db)"
  by (auto simp: read_products_def image_iff)

lemma fst_read_shipping:
  "fst ` set (read_shipping db) = set (map dim_shipping_row.shipping_key (dim_shipping db))"
  "map snd (read_shipping db) = map ship_mode (dim_shipping db)"
  by (auto simp: read_shipping_def image_iff)

lemma col_date:
  assumes "list_all date_cell (col_values df c)" "NA \<notin> set (col_values df c)" "r \<in> set (rows df)"
  shows "\<exists>d. cell_of r c = Ts d"
proof -
  from assms(3) have "cell_of r c \<in> set (col_values df c)"
    by (simp add: col_values_def)
  with assms(1,2) have "date_cell (cell_of r c)" "cell_of r c \<noteq> NA"
    by (auto simp: list_all_iff)
  then show ?thesis by (rule date_cell_Ts)
qed

lemma load_fact_sales_steps:
  assumes "load_fact_sales df db = Inr (n, db')"
  shows "\<exists>d1 d2 f1 f2 f3.
       date_key_col ''order_date'' ''order_date_key'' df = Inr d1
     \<and> date_key_col ''ship_date'' ''ship_date_key'' d1 = Inr d2
     \<and> merge_left ''customer_id'' ''customer_key'' (read_customers db) d2 = Inr f1
     \<and> merge_left ''product_id'' ''product_key'' (read_products db) f1 = Inr f2
     \<and> merge_left ''ship_mode'' ''shipping_key'' (read_shipping db) f2 = Inr f3
     \<and> insert_fact_sales (rows f3) db = Inr db' \<and> n = len f3"
  using assms unfolding load_fact_sales_def Let_def and_then_Inr_iff by auto

lemma keyed_dates:
  assumes d1: "date_key_col ''order_date'' ''order_date_key'' df = Inr d1"
    and d2: "date_key_col ''ship_date'' ''ship_date_key'' d1 = Inr d2"
    and r0: "r0 \<in> set (rows d2)"
  shows "\<exists>r \<in> set (rows df). \<exists>a b. cell_of r ''order_date'' = Ts a \<and> cell_of r ''ship_date'' = Ts b
       \<and> cell_of r0 ''order_date_key'' = Intg (date_key_of a)
       \<and> cell_of r0 ''ship_date_key'' = Intg (date_key_of b)"
proof -
  note e1 = date_key_col_Inr [OF d1] and e2 = date_key_col_Inr [OF d2]
  from e2 r0 obtain r1 where r1: "r1 \<in> set (rows d1)"
      "r0 = AList.update ''ship_date_key'' (dt_int date_key_of (cell_of r1 ''ship_date'')) r1"
    by (auto simp: assign_def)
  from e1 r1(1) obtain r where r: "r \<in> set (rows df)"
      "r1 = AList.update ''order_date_key'' (dt_int date_key_of (cell_of r ''order_date'')) r"
    by (auto simp: assign_def)
  from e1 r(1) obtain a where a: "cell_of r ''order_date'' = Ts a"
    using col_date by blast
  from e2 r1(1) obtain b where b: "cell_of r1 ''ship_date'' = Ts b"
    using col_date by blast
  have "cell_of r ''ship_date'' = Ts b"
    using b r(2) by (simp add: cell_of_update)
  moreover have "cell_of r0 ''order_date_key'' = Intg (date_key_of a)"
    using r1(2) r(2) a by (simp add: cell_of_update dt_int_def)
  moreover have "cell_of r0 ''ship_date_key'' = Intg (date_key_of b)"
    using r1(2) b by (simp add: cell_of_update dt_int_def)
  ultimately show ?thesis
    using r(1) a by blast
qed

lemma merged_keys:
  assumes f1: "merge_left ''customer_id'' ''customer_key'' (read_customers db) d2 = Inr f1"
    and f2: "merge_left ''product_id'' ''product_key'' (read_products db) f1 = Inr f2"
    and f3: "merge_left ''ship_mode'' ''shipping_key'' (read_shipping db) f2 = Inr f3"
    and r3: "r3 \<in> set (rows f3)"
    and nn: "cell_of r3 ''customer_key'' \<noteq> NA" "cell_of r3 ''product_key'' \<noteq> NA"
      "cell_of r3 ''shipping_key'' \<noteq> NA"
  shows "\<exists>r0 \<in> set (rows d2). \<exists>ck pk sk.
       cell_of r3 ''order_date_key'' = cell_of r0 ''order_date_key''
     \<and> cell_of r3 ''ship_date_key'' = cell_of r0 ''ship_date_key''
     \<and> cell_of r3 ''customer_key'' = Intg ck
     \<and> ck \<in> set (map dim_customer_row.customer_key (dim_customer db))
     \<and> cell_of r3 ''product_key'' = Intg pk
     \<and> pk \<in> set (map dim_product_row.product_key (dim_product db))
     \<and> cell_of r3 ''shipping_key'' = Intg sk
     \<and> sk \<in> set (map dim_shipping_row.shipping_key (dim_shipping db))"
proof -
  from merge_left_cells [OF f3 r3] obtain r2 where r2: "r2 \<in> set (rows f2)"
      "\<forall>c. c \<noteq> ''shipping_key'' \<longrightarrow> cell_of r3 c = cell_of r2 c"
      "cell_of r3 ''shipping_key'' = NA
        \<or> (\<exists>key. key \<in> fst ` set (read_shipping db) \<and> cell_of r3 ''shipping_key'' = Intg key)"
    by blast
  from merge_left_cells [OF f2 r2(1)] obtain r1 where r1: "r1 \<in> set (rows f1)"
      "\<forall>c. c \<noteq> ''product_key'' \<longrightarrow> cell_of r2 c = cell_of r1 c"
      "cell_of r2 ''product_key'' = NA
        \<or> (\<exists>key. key \<in> fst ` set (read_products db) \<and> cell_of r2 ''product_key'' = Intg key)"
    by blast
  from merge_left_cells [OF f1 r1(1)] obtain r0 where r0: "r0 \<in> set (rows d2)"
      "\<forall>c. c \<noteq> ''customer_key'' \<longrightarrow> cell_of r1 c = cell_of r0 c"
      "cell_of r1 ''customer_key'' = NA
        \<or> (\<exists>key. key \<in> fst ` set (read_customers db) \<and> cell_of r1 ''customer_key'' = Intg key)"
    by blast
  have c: "cell_of r3 ''customer_key'' = cell_of r1 ''customer_key''"
    using r2(2) r1(2) by simp
  have p: "cell_of r3 ''product_key'' = cell_of r2 ''product_key''"
    using r2(2) by simp
  have o: "cell_of r3 ''order_date_key'' = cell_of r0 ''order_date_key''"
    using r2(2) r1(2) r0(2) by simp
  have s: "cell_of r3 ''ship_date_key'' = cell_of r0 ''ship_date_key''"
    using r2(2) r1(2) r0(2) by simp
  from r0(3) c nn(1) obtain ck where ck: "ck \<in> fst ` set (read_customers db)"
      "cell_of r3 ''customer_key'' = Intg ck"
    by auto
  from r1(3) p nn(2) obtain pk where pk: "pk \<in> fst ` set (read_products db)"
      "cell_of r3 ''product_key'' = Intg pk"
    by auto
  from r2(3) nn(3) obtain sk where sk: "sk \<in> fst ` set (read_shipping db)"
      "cell_of r3 ''shipping_key'' = Intg sk"
    by auto
  show ?thesis
    using r0(1) o s ck pk sk
    unfolding fst_read_customers fst_read_products fst_read_shipping by blast
qed

lemma load_fact_sales_Inr:
  assumes "load_fact_sales df db = Inr (n, db')"
  shows "\<exists>new. db' = db\<lparr>fact_sales := fact_sales db @ new\<rparr> \<and> n = length new
     \<and> (distinct (map customer_id (dim_customer db)) \<and> distinct (map product_id (dim_product db))
          \<and> distinct (map ship_mode (dim_shipping db)) \<longrightarrow> length new = len df)
     \<and> (\<forall>f \<in> set new.
          customer_key f \<in> set (map dim_customer_row.customer_key (dim_customer db))
        \<and> product_key f \<in> set (map dim_product_row.product_key (dim_product db))
        \<and> shipping_key f \<in> set (map dim_shipping_row.shipping_key (dim_shipping db))
        \<and> (\<exists>r \<in> set (rows df). \<exists>a b. cell_of r ''order_date'' = Ts a
              \<and> cell_of r ''ship_date'' = Ts b
              \<and> order_date_key f = date_key_of a \<and> ship_date_key f = date_key_of b))
     \<and> (distinct (map sales_key (fact_sales db)) \<longrightarrow>
          distinct (map sales_key (fact_sales db @ new)))"
proof -
  from load_fact_sales_steps [OF assms] obtain d1 d2 f1 f2 f3 where
    s: "date_key_col ''order_date'' ''order_date_key'' df = Inr d1"
       "date_key_col ''ship_date'' ''ship_date_key'' d1 = Inr d2"
       "merge_left ''customer_id'' ''customer_key'' (read_customers db) d2 = Inr f1"
       "merge_left ''product_id'' ''product_key'' (read_products db) f1 = Inr f2"
       "merge_left ''ship_mode'' ''shipping_key'' (read_shipping db) f2 = Inr f3"
       "insert_fact_sales (rows f3) db = Inr db'" "n = len f3"
    by blast
  define new where "new = with_keys (\<lambda>k r. r\<lparr>sales_key := k\<rparr>)
      (next_key (map sales_key (fact_sales db))) (map fact_row (rows f3))"
  from s(6) have db': "db' = db\<lparr>fact_sales := fact_sales db @ new\<rparr>"
    and nn: "\<not> list_ex (\<lambda>r. list_ex (\<lambda>c. cell_of r c = NA) fact_not_null) (rows f3)"
    by (auto simp: insert_fact_sales_def new_def split: if_splits)
  have n: "n = length new"
    using s(7) by (simp add: new_def len_def)
  have d12: "length (rows d2) = length (rows df)"
    using date_key_col_Inr [OF s(1)] date_key_col_Inr [OF s(2)] by (simp add: rows_assign_length)
  have l: "distinct (map customer_id (dim_customer db)) \<and> distinct (map product_id (dim_product db))
          \<and> distinct (map ship_mode (dim_shipping db)) \<longrightarrow> length new = len df"
  proof
    assume d: "distinct (map customer_id (dim_customer db)) \<and> distinct (map product_id (dim_product db))
          \<and> distinct (map ship_mode (dim_shipping db))"
    have "length (rows f3) = length (rows f2)"
      using merge_left_length [OF s(5)] d by (simp add: fst_read_shipping)
    also have "\<dots> = length (rows f1)"
      using merge_left_length [OF s(4)] d by (simp add: fst_read_products)
    also have "\<dots> = length (rows d2)"
      using merge_left_length [OF s(3)] d by (simp add: fst_read_customers)
    finally show "length new = len df"
      using d12 by (simp add: new_def len_def)
  qed
  have k: "distinct (map sales_key (fact_sales db)) \<longrightarrow>
          distinct (map sales_key (fact_sales db @ new))"
    unfolding new_def by (rule impI, rule keys_append_distinct) simp_all
  have e: "customer_key f \<in> set (map dim_customer_row.customer_key (dim_customer db))
        \<and> product_key f \<in> set (map dim_product_row.product_key (dim_product db))
        \<and> shipping_key f \<in> set (map dim_shipping_row.shipping_key (dim_shipping db))
        \<and> (\<exists>r \<in> set (rows df). \<exists>a b. cell_of r ''order_date'' = Ts a
              \<and> cell_of r ''ship_date'' = Ts b
              \<and> order_date_key f = date_key_of a \<and> ship_date_key f = date_key_of b)"
    if "f \<in> set new" for f
  proof -
    from that obtain r3 k' where r3: "r3 \<in> set (rows f3)" "f = (fact_row r3)\<lparr>sales_key := k'\<rparr>"
      unfolding new_def by (auto dest!: with_keys_elem)
    from merged_keys [OF s(3) s(4) s(5) r3(1) not_null_cells [OF nn r3(1)]]
    obtain r0 ck pk sk where m: "r0 \<in> set (rows d2)"
       "cell_of r3 ''order_date_key'' = cell_of r0 ''order_date_key''"
       "cell_of r3 ''ship_date_key'' = cell_of r0 ''ship_date_key''"
       "cell_of r3 ''customer_key'' = Intg ck"
       "ck \<in> set (map dim_customer_row.customer_key (dim_customer db))"
       "cell_of r3 ''product_key'' = Intg pk"
       "pk \<in> set (map dim_product_row.product_key (dim_product db))"
       "cell_of r3 ''shipping_key'' = Intg sk"
       "sk \<in> set (map dim_shipping_row.shipping_key (dim_shipping db))"
      by blast
    from keyed_dates [OF s(1) s(2) m(1)] obtain r a b where d: "r \<in> set (rows df)"
       "cell_of r ''order_date'' = Ts a" "cell_of r ''ship_date'' = Ts b"
       "cell_of r0 ''order_date_key'' = Intg (date_key_of a)"
       "cell_of r0 ''ship_date_key'' = Intg (date_key_of b)"
      by blast
    have "customer_key f = ck" "product_key f = pk" "shipping_key f = sk"
      "order_date_key f = date_key_of a" "ship_date_key f = date_key_of b"
      using r3(2) m d by (simp_all add: fact_row_def int_of_cell_def)
    then show ?thesis
      using m(5,7,9) d(1,2,3) by blast
  qed
  show ?thesis
    using db' n l k e by blast
qed


lemma set_dates_of: "set (dates_of vs) = {d. Ts d \<in> set vs}"
  by (induction vs rule: dates_of.induct) auto

lemma distinct_dates_of: "distinct vs \<Longrightarrow> distinct (dates_of vs)"
  by (induction vs rule: dates_of.induct) (auto simp: set_dates_of)

lemma set_all_dates:
  "set (all_dates df) =
     {d. Ts d \<in> set (col_values df ''order_date'') \<union> set (col_values df ''ship_date'')}"
  by (auto simp: all_dates_def Let_def set_dates_of drop_duplicates_set dropna_def)

lemma distinct_all_dates: "distinct (all_dates df)"
  by (simp add: all_dates_def Let_def distinct_dates_of drop_duplicates_distinct)

lemma sorted_all_dates: "sorted (map ymd (all_dates df))"
  by (simp add: all_dates_def Let_def)

lemma ymd_inj: "inj ymd"
  by (rule injI) (metis date.exhaust ymd.simps prod.inject)

lemma strict_sorted_all_dates: "sorted_wrt (<) (map ymd (all_dates df))"
  using sorted_all_dates [of df] distinct_all_dates [of df] ymd_inj
  by (simp add: strict_sorted_iff distinct_map inj_on_subset [OF _ subset_UNIV])

lemma load_tables_cases:
  assumes "load_tables df db = (res, db')"
  shows "(\<exists>e. res = Inl e \<and> fact_sales db' = [])
       \<or> (res = Inr () \<and> (\<exists>db1 db2 db3 db4 db5 n1 n2 n3 n4 n5 n6.
            load_staging df (create_schema db) = Inr (n1, db1)
          \<and> load_dim_date df db1 = Inr (n2, db2)
          \<and> load_dim_customer df db2 = Inr (n3, db3)
          \<and> load_dim_product df db3 = Inr (n4, db4)
          \<and> load_dim_shipping df db4 = Inr (n5, db5)
          \<and> load_fact_sales df db5 = Inr (n6, db')))"
proof (cases "load_staging df (create_schema db)")
  case (Inl e)
  with assms show ?thesis
    by (auto simp: load_tables_def create_schema_def)
next
  case (Inr p1)
  then obtain n1 db1 where s1: "load_staging df (create_schema db) = Inr (n1, db1)"
    by (cases p1) auto
  have e1: "fact_sales db1 = []"
    using load_staging_Inr [OF s1] by (auto simp: create_schema_def)
  show ?thesis
  proof (cases "load_dim_date df db1")
    case (Inl e)
    with assms s1 e1 show ?thesis
      by (auto simp: load_tables_def)
  next
    case (Inr p2)
    then obtain n2 db2 where s2: "load_dim_date df db1 = Inr (n2, db2)"
      by (cases p2) auto
    have e2: "fact_sales db2 = []"
      using load_dim_date_Inr [OF s2] e1 by auto
    show ?thesis
    proof (cases "load_dim_customer df db2")
      case (Inl e)
      with assms s1 s2 e2 show ?thesis
        by (auto simp: load_tables_def)
    next
      case (Inr p3)
      then obtain n3 db3 where s3: "load_dim_customer df db2 = Inr (n3, db3)"
        by (cases p3) auto
      have e3: "fact_sales db3 = []"
        using load_dim_customer_Inr [OF s3] e2 by auto
      show ?thesis
      proof (cases "load_dim_product df db3")
        case (Inl e)
        with assms s1 s2 s3 e3 show ?thesis
          by (auto simp: load_tables_def)
      next
        case (Inr p4)
        then obtain n4 db4 where s4: "load_dim_product df db3 = Inr (n4, db4)"
          by (cases p4) auto
        have e4: "fact_sales db4 = []"
          using load_dim_product_Inr [OF s4] e3 by auto
        show ?thesis
        proof (cases "load_dim_shipping df db4")
          case (Inl e)
          with assms s1 s2 s3 s4 e4 show ?thesis
            by (auto simp: load_tables_def)
        next
          case (Inr p5)
          then obtain n5 db5 where s5: "load_dim_shipping df db4 = Inr (n5, db5)"
            by (cases p5) auto
          have e5: "fact_sales db5 = []"
            using load_dim_shipping_Inr [OF s5] e4 by auto
          show ?thesis
          proof (cases "load_fact_sales df db5")
            case (Inl e)
            with assms s1 s2 s3 s4 s5 e5 show ?thesis
              by (auto simp: load_tables_def)
          next
            case (Inr p6)
            then obtain n6 db6 where s6: "load_fact_sales df db5 = Inr (n6, db6)"
              by (cases p6) auto
            with assms s1 s2 s3 s4 s5 have "res = Inr ()" "db' = db6"
              by (auto simp: load_tables_def)
            with s1 s2 s3 s4 s5 s6 show ?thesis
              by blast
          qed
        qed
      qed
    qed
  qed
qed

lemma unique_ok_Nil: "unique_ok [] new \<longleftrightarrow> distinct new"
  by (simp add: unique_ok_def list_all_iff)

lemma load_tables_Inr:
  assumes "load_tables df db = (Inr (), db')"
  shows "length (staging_raw_sales db') = len df
     \<and> dim_date db' = map date_row (all_dates df)
     \<and> distinct (map date_key (dim_date db'))
     \<and> map customer_id (dim_customer db') = drop_duplicates (col_values df ''customer_id'')
     \<and> distinct (map dim_customer_row.customer_key (dim_customer db'))
     \<and> map product_id (dim_product db') = drop_duplicates (col_values df ''product_id'')
     \<and> distinct (map dim_product_row.product_key (dim_product db'))
     \<and> map ship_mode (dim_shipping db') = drop_duplicates (col_values df ''ship_mode'')
     \<and> distinct (map dim_shipping_row.shipping_key (dim_shipping db'))
     \<and> length (fact_sales db') = len df
     \<and> distinct (map sales_key (fact_sales db'))
     \<and> (\<forall>f \<in> set (fact_sales db').
          customer_key f \<in> set (map dim_customer_row.customer_key (dim_customer db'))
        \<and> product_key f \<in> set (map dim_product_row.product_key (dim_product db'))
        \<and> shipping_key f \<in> set (map dim_shipping_row.shipping_key (dim_shipping db'))
        \<and> (\<exists>r \<in> set (rows df). \<exists>a b. cell_of r ''order_date'' = Ts a
              \<and> cell_of r ''ship_date'' = Ts b
              \<and> order_date_key f = date_key_of a \<and> ship_date_key f = date_key_of b))"
proof -
  from load_tables_cases [OF assms] obtain db1 db2 db3 db4 db5 n1 n2 n3 n4 n5 n6 where
    s: "load_staging df (create_schema db) = Inr (n1, db1)"
       "load_dim_date df db1 = Inr (n2, db2)"
       "load_dim_customer df db2 = Inr (n3, db3)"
       "load_dim_product df db3 = Inr (n4, db4)"
       "load_dim_shipping df db4 = Inr (n5, db5)"
       "load_fact_sales df db5 = Inr (n6, db')"
    by auto
  from load_staging_Inr [OF s(1)] obtain new1 where
    1: "db1 = (create_schema db)\<lparr>staging_raw_sales := staging_raw_sales (create_schema db) @ new1\<rparr>"
       "length new1 = len df"
    by blast
  note 2 = load_dim_date_Inr [OF s(2)]
  from load_dim_customer_Inr [OF s(3)] obtain new3 where
    3: "db3 = db2\<lparr>dim_customer := dim_customer db2 @ new3\<rparr>"
       "map customer_id new3 = drop_duplicates (col_values df ''customer_id'')"
       "distinct (map dim_customer_row.customer_key (dim_customer db2)) \<longrightarrow>
            distinct (map dim_customer_row.customer_key (dim_customer db2 @ new3))"
    by blast
  from load_dim_product_Inr [OF s(4)] obtain new4 where
    4: "db4 = db3\<lparr>dim_product := dim_product db3 @ new4\<rparr>"
       "map product_id new4 = drop_duplicates (col_values df ''product_id'')"
       "distinct (map dim_product_row.product_key (dim_product db3)) \<longrightarrow>
            distinct (map dim_product_row.product_key (dim_product db3 @ new4))"
    by blast
  from load_dim_shipping_Inr [OF s(5)] obtain new5 where
    5: "db5 = db4\<lparr>dim_shipping := dim_shipping db4 @ new5\<rparr>"
       "map ship_mode new5 = drop_duplicates (col_values df ''ship_mode'')"
       "distinct (map dim_shipping_row.shipping_key (dim_shipping db4)) \<longrightarrow>
            distinct (map dim_shipping_row.shipping_key (dim_shipping db4 @ new5))"
    by blast
  from load_fact_sales_Inr [OF s(6)] obtain new6 where
    6: "db' = db5\<lparr>fact_sales := fact_sales db5 @ new6\<rparr>"
       "distinct (map customer_id (dim_customer db5)) \<and> distinct (map product_id (dim_product db5))
          \<and> distinct (map ship_mode (dim_shipping db5)) \<longrightarrow> length new6 = len df"
       "\<forall>f \<in> set new6.
          customer_key f \<in> set (map dim_customer_row.customer_key (dim_customer db5))
        \<and> product_key f \<in> set (map dim_product_row.product_key (dim_product db5))
        \<and> shipping_key f \<in> set (map dim_shipping_row.shipping_key (dim_shipping db5))
        \<and> (\<exists>r \<in> set (rows df). \<exists>a b. cell_of r ''order_date'' = Ts a
              \<and> cell_of r ''ship_date'' = Ts b
              \<and> order_date_key f = date_key_of a \<and> ship_date_key f = date_key_of b)"
       "distinct (map sales_key (fact_sales db5)) \<longrightarrow>
          distinct (map sales_key (fact_sales db5 @ new6))"
    by blast
  have t1: "staging_raw_sales db' = new1" "dim_date db' = map date_row (all_dates df)"
    "dim_customer db' = new3" "dim_product db' = new4" "dim_shipping db' = new5"
    "fact_sales db' = new6"
    "dim_customer db5 = new3" "dim_product db5 = new4" "dim_shipping db5 = new5"
    "fact_sales db5 = []"
    using 1 2 3(1) 4(1) 5(1) 6(1) by (simp_all add: create_schema_def)
  have d2: "distinct (map date_key (map date_row (all_dates df)))"
    using 2 1 by (simp add: create_schema_def unique_ok_Nil)
  have k3: "distinct (map dim_customer_row.customer_key new3)"
    using 3(3) 2 1 by (simp add: create_schema_def)
  have k4: "distinct (map dim_product_row.product_key new4)"
    using 4(3) 3(1) 2 1 by (simp add: create_schema_def)
  have k5: "distinct (map dim_shipping_row.shipping_key new5)"
    using 5(3) 4(1) 3(1) 2 1 by (simp add: create_schema_def)
  have l6: "length new6 = len df"
    using 6(2) 3(2) 4(2) 5(2) unfolding t1 by (simp add: drop_duplicates_distinct)
  have k6: "distinct (map sales_key new6)"
    using 6(4) unfolding t1 by simp
  show ?thesis
    unfolding t1 using 1(2) d2 3(2) k3 4(2) k4 5(2) k5 l6 k6 6(3) [unfolded t1] by simp
qed

lemma and_then_Inl_iff:
  "and_then x f = Inl e \<longleftrightarrow> x = Inl e \<or> (\<exists>v. x = Inr v \<and> f v = Inl e)"
  by (cases x) auto

lemma require_not_mismatch: "require df c = Inl e \<Longrightarrow> e \<noteq> row_count_mismatch"
  by (auto simp: require_def row_count_mismatch_def split: if_splits)

lemma require_all_not_mismatch: "require_all df cs = Inl e \<Longrightarrow> e \<noteq> row_count_mismatch"
  by (induction cs) (auto simp: and_then_Inl_iff dest: require_not_mismatch)

lemma require_dt_not_mismatch: "require_dt df c = Inl e \<Longrightarrow> e \<noteq> row_count_mismatch"
  by (auto simp: require_dt_def and_then_Inl_iff row_count_mismatch_def require_def split: if_splits)

lemma load_staging_not_mismatch: "load_staging df db = Inl e \<Longrightarrow> e \<noteq> row_count_mismatch"
  by (auto simp: load_staging_def and_then_Inl_iff Let_def
      dest: require_all_not_mismatch require_dt_not_mismatch)

lemma load_dim_date_not_mismatch: "load_dim_date df db = Inl e \<Longrightarrow> e \<noteq> row_count_mismatch"
  by (auto simp: load_dim_date_def and_then_Inl_iff Let_def insert_dim_date_def row_count_mismatch_def
      split: if_splits dest: require_dt_not_mismatch [unfolded row_count_mismatch_def])

lemma load_dim_customer_not_mismatch: "load_dim_customer df db = Inl e \<Longrightarrow> e \<noteq> row_count_mismatch"
  by (auto simp: load_dim_customer_def and_then_Inl_iff Let_def insert_dim_customer_def row_count_mismatch_def
      split: if_splits dest: require_dt_not_mismatch [unfolded row_count_mismatch_def]
        require_not_mismatch [unfolded row_count_mismatch_def] require_all_not_mismatch [unfolded row_count_mismatch_def])

lemma load_dim_product_not_mismatch: "load_dim_product df db = Inl e \<Longrightarrow> e \<noteq> row_count_mismatch"
  by (auto simp: load_dim_product_def and_then_Inl_iff Let_def insert_dim_product_def row_count_mismatch_def
      split: if_splits dest: require_all_not_mismatch [unfolded row_count_mismatch_def])

lemma load_dim_shipping_not_mismatch: "load_dim_shipping df db = Inl e \<Longrightarrow> e \<noteq> row_count_mismatch"
  by (auto simp: load_dim_shipping_def and_then_Inl_iff Let_def insert_dim_shipping_def row_count_mismatch_def
      split: if_splits dest: require_not_mismatch [unfolded row_count_mismatch_def])

lemma date_key_col_not_mismatch: "date_key_col src dst df = Inl e \<Longrightarrow> e \<noteq> row_count_mismatch"
  by (auto simp: date_key_col_def and_then_Inl_iff row_count_mismatch_def
      split: if_splits dest: require_dt_not_mismatch [unfolded row_count_mismatch_def])

lemma merge_left_not_mismatch: "merge_left on k keys df = Inl e \<Longrightarrow> e \<noteq> row_count_mismatch"
  by (auto simp: merge_left_def and_then_Inl_iff row_count_mismatch_def
      split: if_splits dest: require_not_mismatch [unfolded row_count_mismatch_def])

lemma insert_fact_sales_not_mismatch: "insert_fact_sales rs db = Inl e \<Longrightarrow> e \<noteq> row_count_mismatch"
  by (auto simp: insert_fact_sales_def row_count_mismatch_def split: if_splits)

lemma load_fact_sales_not_mismatch: "load_fact_sales df db = Inl e \<Longrightarrow> e \<noteq> row_count_mismatch"
  unfolding load_fact_sales_def Let_def and_then_Inl_iff
  by (auto dest: date_key_col_not_mismatch merge_left_not_mismatch require_all_not_mismatch
      insert_fact_sales_not_mismatch)

lemma load_tables_not_mismatch: "fst (load_tables df db) \<noteq> Inl row_count_mismatch"
  by (auto simp: load_tables_def Let_def split: sum.splits prod.splits
      dest: load_staging_not_mismatch load_dim_date_not_mismatch load_dim_customer_not_mismatch
        load_dim_product_not_mismatch load_dim_shipping_not_mismatch load_fact_sales_not_mismatch)

subsection \<open>Row-count conservation and referential completeness\<close>

lemma load_data_snd: "snd (load_data df db) = snd (load_tables df db)"
  by (simp add: load_data_def split: prod.splits sum.splits)

lemma load_data_fst:
  "fst (load_data df db) =
     (case fst (load_tables df db) of
        Inl e \<Rightarrow> Inl e
      | Inr u \<Rightarrow> validate_load (snd (load_tables df db)) (int (len df)))"
  by (simp add: load_data_def split: prod.splits sum.splits)

lemma table_counts_eq:
  "table_counts db =
     [(''staging_raw_sales'', length (staging_raw_sales db)),
      (''dim_date'', length (dim_date db)),
      (''dim_customer'', length (dim_customer db)),
      (''dim_product'', length (dim_product db)),
      (''dim_shipping'', length (dim_shipping db)),
      (''fact_sales'', length (fact_sales db))]"
  by (simp add: table_counts_def tables_def)

lemma fact_count: "counts_at (table_counts db) ''fact_sales'' = length (fact_sales db)"
  by (simp add: table_counts_eq counts_at_def)

lemma validate_load_eq:
  "validate_load db n =
     (if int (length (fact_sales db)) = n then Inr (table_counts db) else Inl row_count_mismatch)"
  by (simp add: validate_load_def Let_def fact_count)

text \<open>
  Claim C9. When the loading steps of \<^verbatim>\<open>load_data\<close> complete without an exception, the
  fact table holds exactly one row for every record of the frame, each dimension of the run
  has every natural key (customer id, product id, ship mode) once, and the reconciler
  succeeds and returns the counts; so no run of \<^verbatim>\<open>load_data\<close> ends in the reconciler's
  row-count exception. A left merge against keys without duplicates keeps the number of
  rows, and \<^verbatim>\<open>load_fact_sales\<close> on any database that satisfies the schema's uniqueness
  constraints adds as many fact rows as the frame has records.
\<close>

theorem reconciler_never_fails:
  "fst (load_data df db) \<noteq> Inl row_count_mismatch
   \<and> (fst (load_tables df db) = Inr () \<longrightarrow>
        fst (load_data df db) = Inr (table_counts (snd (load_data df db)))
      \<and> length (fact_sales (snd (load_data df db))) = len df
      \<and> distinct (map customer_id (dim_customer (snd (load_data df db))))
      \<and> distinct (map product_id (dim_product (snd (load_data df db))))
      \<and> distinct (map ship_mode (dim_shipping (snd (load_data df db)))))
   \<and> (distinct (map snd keys) \<longrightarrow>
        (\<forall>d. merge_left on k keys df = Inr d \<longrightarrow> len d = len df))
   \<and> (constraints_hold db \<longrightarrow>
        (\<forall>n db'. load_fact_sales df db = Inr (n, db') \<longrightarrow>
           n = len df \<and> length (fact_sales db') = length (fact_sales db) + len df))"
proof -
  obtain res db' where t: "load_tables df db = (res, db')"
    by (cases "load_tables df db")
  have ok: "fst (load_data df db) = Inr (table_counts (snd (load_data df db)))
      \<and> length (fact_sales (snd (load_data df db))) = len df
      \<and> distinct (map customer_id (dim_customer (snd (load_data df db))))
      \<and> distinct (map product_id (dim_product (snd (load_data df db))))
      \<and> distinct (map ship_mode (dim_shipping (snd (load_data df db))))"
    if "res = Inr ()"
  proof -
    note f = load_tables_Inr [OF t [unfolded that]]
    show ?thesis
      using f t that
      by (simp add: load_data_snd load_data_fst validate_load_eq drop_duplicates_distinct)
  qed
  have 1: "fst (load_data df db) \<noteq> Inl row_count_mismatch"
  proof (cases res)
    case (Inl e)
    then show ?thesis
      using load_tables_not_mismatch [of df db] t by (simp add: load_data_fst)
  next
    case (Inr u)
    then show ?thesis
      using ok by simp
  qed
  have 3: "distinct (map snd keys) \<longrightarrow>
        (\<forall>d. merge_left on k keys df = Inr d \<longrightarrow> len d = len df)"
    using merge_left_length by (simp add: len_def)
  have 4: "constraints_hold db \<longrightarrow>
        (\<forall>n db'. load_fact_sales df db = Inr (n, db') \<longrightarrow>
           n = len df \<and> length (fact_sales db') = length (fact_sales db) + len df)"
  proof (intro impI allI)
    fix n db' assume c: "constraints_hold db" and l: "load_fact_sales df db = Inr (n, db')"
    from load_fact_sales_Inr [OF l] c
    show "n = len df \<and> length (fact_sales db') = length (fact_sales db) + len df"
      by (auto simp: constraints_hold_def)
  qed
  show ?thesis
    using 1 ok 3 4 t by simp
qed


lemma load_df_loaded: "load_tables load_df empty_db = (Inr (), loaded_db)"
  by code_simp

text \<open>
  Claim C1. \<^verbatim>\<open>validate_load\<close> raises if and only if the number of rows of fact\_sales
  differs from \<^verbatim>\<open>source_rows\<close>: with equal counts it returns the count of every table, on a
  mismatch it raises the ValueError of the source, having logged at level ERROR the report
  that spells out both counts; it logs no ERROR record otherwise. \<^verbatim>\<open>load_data\<close> calls it,
  once the loading steps have completed, with the number of rows of the frame it was given
  (in \<^verbatim>\<open>run_pipeline\<close> the frame that has passed \<^verbatim>\<open>validate_data\<close>), and passes on the
  exception of a loading step.
\<close>

theorem validate_load_iff:
  "((\<exists>e. validate_load db n = Inl e) \<longleftrightarrow> int (length (fact_sales db)) \<noteq> n)
   \<and> validate_load db n =
       (if int (length (fact_sales db)) = n then Inr (table_counts db)
        else Inl (ValueError ''Load validation failed - row count mismatch!''))
   \<and> table_counts db =
       [(''staging_raw_sales'', length (staging_raw_sales db)),
        (''dim_date'', length (dim_date db)),
        (''dim_customer'', length (dim_customer db)),
        (''dim_product'', length (dim_product db)),
        (''dim_shipping'', length (dim_shipping db)),
        (''fact_sales'', length (fact_sales db))]
   \<and> ((ERROR, cross_mark @ '' Row count mismatch! Source: '' @ fmt_comma n @ '', Fact: ''
                @ fmt_comma (int (length (fact_sales db)))) \<in> set (validate_load_log db n)
        \<longleftrightarrow> int (length (fact_sales db)) \<noteq> n)
   \<and> (\<forall>r \<in> set (validate_load_log db n). fst r = ERROR \<longrightarrow> int (length (fact_sales db)) \<noteq> n)
   \<and> (fst (load_tables df db0) = Inr () \<longrightarrow>
        fst (load_data df db0) = validate_load (snd (load_tables df db0)) (int (len df)))
   \<and> (\<forall>e. fst (load_tables df db0) = Inl e \<longrightarrow> fst (load_data df db0) = Inl e)"
proof -
  have l: "(ERROR, cross_mark @ '' Row count mismatch! Source: '' @ fmt_comma n @ '', Fact: ''
                @ fmt_comma (int (length (fact_sales db)))) \<in> set (validate_load_log db n)
        \<longleftrightarrow> int (length (fact_sales db)) \<noteq> n"
    by (auto simp: validate_load_log_def Let_def fact_count mismatch_report_def)
  have e: "\<forall>r \<in> set (validate_load_log db n). fst r = ERROR \<longrightarrow> int (length (fact_sales db)) \<noteq> n"
    by (auto simp: validate_load_log_def Let_def fact_count)
  show ?thesis
    using l e
    by (simp add: validate_load_eq row_count_mismatch_def table_counts_eq load_data_fst)
qed

lemma no_columns_fails:
  "fst (load_tables \<lparr>columns = [], rows = []\<rparr> empty_db) = Inl (KeyError ''order_id'')"
  by code_simp

theorem validate_load_iff_witness:
  "validate_load loaded_db 2 = Inr (table_counts loaded_db)
   \<and> validate_load loaded_db 3 = Inl (ValueError ''Load validation failed - row count mismatch!'')
   \<and> (ERROR, cross_mark @ '' Row count mismatch! Source: 3, Fact: 2'')
        \<in> set (validate_load_log loaded_db 3)
   \<and> fst (load_data load_df empty_db) = validate_load loaded_db 2
   \<and> fst (load_data \<lparr>columns = [], rows = []\<rparr> empty_db) = Inl (KeyError ''order_id'')"
proof -
  have n: "length (fact_sales loaded_db) = 2" "len load_df = 2"
    by (simp_all add: loaded_db_def load_df_def len_def)
  have f: "fmt_comma 3 = ''3''" "fmt_comma 2 = ''2''"
    by code_simp+
  have "validate_load loaded_db 2 = Inr (table_counts loaded_db)"
    "validate_load loaded_db 3 = Inl (ValueError ''Load validation failed - row count mismatch!'')"
    "(ERROR, cross_mark @ '' Row count mismatch! Source: 3, Fact: 2'')
        \<in> set (validate_load_log loaded_db 3)"
    using validate_load_iff [of loaded_db 2 load_df empty_db]
      validate_load_iff [of loaded_db 3 load_df empty_db] n f
    by simp_all
  moreover have "fst (load_data load_df empty_db) = validate_load loaded_db 2"
    using validate_load_iff [of loaded_db 2 load_df empty_db] load_df_loaded n by simp
  moreover have "fst (load_data \<lparr>columns = [], rows = []\<rparr> empty_db) = Inl (KeyError ''order_id'')"
    using validate_load_iff [of loaded_db 2 "\<lparr>columns = [], rows = []\<rparr>" empty_db] no_columns_fails
    by simp
  ultimately show ?thesis
    by simp
qed

theorem reconciler_never_fails_witness:
  "fst (load_data load_df empty_db)
     = Inr [(''staging_raw_sales'', 2), (''dim_date'', 3), (''dim_customer'', 1),
            (''dim_product'', 2), (''dim_shipping'', 1), (''fact_sales'', 2)]
   \<and> length (fact_sales (snd (load_data load_df empty_db))) = 2
   \<and> len load_df = 2
   \<and> (\<exists>d. merge_left ''customer_id'' ''customer_key'' (read_customers loaded_db) load_df = Inr d
          \<and> len d = 2)
   \<and> (\<exists>n db'. load_fact_sales load_df (loaded_db\<lparr>fact_sales := []\<rparr>) = Inr (n, db') \<and> n = 2
          \<and> length (fact_sales db') = 2)"
proof -
  have n: "len load_df = 2"
    by (simp add: load_df_def len_def)
  have s: "snd (load_data load_df empty_db) = loaded_db"
    using load_df_loaded by (simp add: load_data_snd)
  have c: "table_counts loaded_db = [(''staging_raw_sales'', 2), (''dim_date'', 3), (''dim_customer'', 1),
            (''dim_product'', 2), (''dim_shipping'', 1), (''fact_sales'', 2)]"
    by (simp add: table_counts_eq loaded_db_def)
  have k: "distinct (map snd (read_customers loaded_db))"
    by (simp add: read_customers_def loaded_db_def)
  have m: "\<not> isl (merge_left ''customer_id'' ''customer_key'' (read_customers loaded_db) load_df)"
    by code_simp
  then obtain d where d: "merge_left ''customer_id'' ''customer_key'' (read_customers loaded_db) load_df = Inr d"
    by (cases "merge_left ''customer_id'' ''customer_key'' (read_customers loaded_db) load_df") auto
  have h: "constraints_hold (loaded_db\<lparr>fact_sales := []\<rparr>)"
    by (simp add: constraints_hold_def loaded_db_def)
  have "\<not> isl (load_fact_sales load_df (loaded_db\<lparr>fact_sales := []\<rparr>))"
    by code_simp
  then obtain p where "load_fact_sales load_df (loaded_db\<lparr>fact_sales := []\<rparr>) = Inr p"
    by (cases "load_fact_sales load_df (loaded_db\<lparr>fact_sales := []\<rparr>)") auto
  then obtain n' db' where l: "load_fact_sales load_df (loaded_db\<lparr>fact_sales := []\<rparr>) = Inr (n', db')"
    by (cases p) auto
  note t = reconciler_never_fails [of load_df empty_db "read_customers loaded_db"
      "''customer_id''" "''customer_key''"]
  note t' = reconciler_never_fails [of load_df "loaded_db\<lparr>fact_sales := []\<rparr>" "[]" "''x''" "''y''"]
  have "len d = 2"
    using t k d n by simp
  moreover have "n' = 2 \<and> length (fact_sales db') = 2"
    using t' h l n by simp
  ultimately show ?thesis
    using t load_df_loaded s c n d l by simp
qed


subsection \<open>The date dimension\<close>

lemma date_key_mono:
  assumes "valid_date a" "valid_date b" "ymd a < ymd b"
  shows "date_key_of a < date_key_of b"
proof -
  obtain y m d where a: "a = Date y m d" by (cases a)
  obtain y' m' d' where b: "b = Date y' m' d'" by (cases b)
  have r: "1 \<le> m" "m \<le> 12" "1 \<le> d" "d \<le> 31" "1 \<le> m'" "m' \<le> 12" "1 \<le> d'" "d' \<le> 31"
    using assms(1,2) unfolding a b by (auto simp: days_in_month_def split: if_splits)
  from assms(3) have "y < y' \<or> y = y' \<and> (m < m' \<or> m = m' \<and> d < d')"
    unfolding a b by (auto simp: less_prod_def)
  then show ?thesis
    unfolding a b using r by auto
qed

lemma sorted_wrt_map_mono:
  assumes "sorted_wrt (\<lambda>a b. f a < f b) xs" "\<And>a b. a \<in> set xs \<Longrightarrow> b \<in> set xs \<Longrightarrow> f a < f b \<Longrightarrow> g a < g b"
  shows "sorted_wrt (\<lambda>a b. g a < g b) xs"
  using assms by (induction xs) auto

lemma keys_ascending:
  assumes "\<forall>d \<in> set (all_dates df). valid_date d"
  shows "sorted_wrt (<) (map date_key (map date_row (all_dates df)))"
proof -
  have "sorted_wrt (\<lambda>a b. ymd a < ymd b) (all_dates df)"
    using strict_sorted_all_dates [of df] by (simp add: sorted_wrt_map)
  then have "sorted_wrt (\<lambda>a b. date_key_of a < date_key_of b) (all_dates df)"
    by (rule sorted_wrt_map_mono) (use assms in \<open>simp add: date_key_mono\<close>)
  then show ?thesis
    by (simp add: sorted_wrt_map date_row_def)
qed

text \<open>
  Claim C6. \<^verbatim>\<open>load_dim_date\<close> appends to dim\_date one row for each date of \<^verbatim>\<open>all_dates\<close>
  (in \<^verbatim>\<open>load_data\<close> the table is empty before, so these are its rows): every date that
  occurs in the order-date or the ship-date column, each exactly once however many records
  carry it, in strictly ascending order of (year, month, day); the key of a row is
  year * 10000 + month * 100 + day (20190103 for 2019-01-03), so for calendar days the keys
  ascend too.
\<close>

theorem dim_date_rows:
  "(\<forall>n db'. load_dim_date df db = Inr (n, db') \<longrightarrow>
        dim_date db' = dim_date db @ map date_row (all_dates df) \<and> n = length (all_dates df))
   \<and> (fst (load_tables df db) = Inr () \<longrightarrow>
        dim_date (snd (load_data df db)) = map date_row (all_dates df))
   \<and> distinct (all_dates df)
   \<and> set (all_dates df)
       = {d. Ts d \<in> set (col_values df ''order_date'') \<union> set (col_values df ''ship_date'')}
   \<and> sorted_wrt (<) (map ymd (all_dates df))
   \<and> ((\<forall>d \<in> set (all_dates df). valid_date d) \<longrightarrow>
        sorted_wrt (<) (map date_key (map date_row (all_dates df))))
   \<and> date_key (date_row (Date y m d)) = y * 10000 + m * 100 + d
   \<and> date_key (date_row (Date 2019 1 3)) = 20190103"
proof -
  have 1: "\<forall>n db'. load_dim_date df db = Inr (n, db') \<longrightarrow>
        dim_date db' = dim_date db @ map date_row (all_dates df) \<and> n = length (all_dates df)"
  proof (intro allI impI)
    fix n db' assume l: "load_dim_date df db = Inr (n, db')"
    from load_dim_date_Inr [OF l] have "dim_date db' = dim_date db @ map date_row (all_dates df)"
      by simp
    moreover from l have "n = length (all_dates df)"
      by (auto simp: load_dim_date_def and_then_Inr_iff Let_def)
    ultimately show "dim_date db' = dim_date db @ map date_row (all_dates df) \<and> n = length (all_dates df)"
      by simp
  qed
  have 2: "fst (load_tables df db) = Inr () \<longrightarrow>
        dim_date (snd (load_data df db)) = map date_row (all_dates df)"
  proof
    assume a: "fst (load_tables df db) = Inr ()"
    then have "load_tables df db = (Inr (), snd (load_tables df db))"
      by (metis prod.collapse)
    from load_tables_Inr [OF this] show "dim_date (snd (load_data df db)) = map date_row (all_dates df)"
      by (simp add: load_data_snd)
  qed
  show ?thesis
    using 1 2 distinct_all_dates [of df] set_all_dates [of df] strict_sorted_all_dates [of df]
      keys_ascending [of df]
    by (simp add: date_row_def)
qed

lemma load_df_dates: "all_dates load_df = [Date 2019 1 3, Date 2019 1 5, Date 2019 1 7]"
  by code_simp

lemma load_df_staged: "\<not> isl (load_dim_date load_df empty_db)"
  by code_simp

theorem dim_date_rows_witness:
  "all_dates load_df = [Date 2019 1 3, Date 2019 1 5, Date 2019 1 7]
   \<and> col_values load_df ''order_date'' = [Ts (Date 2019 1 3), Ts (Date 2019 1 3)]
   \<and> col_values load_df ''ship_date'' = [Ts (Date 2019 1 7), Ts (Date 2019 1 5)]
   \<and> map date_key (dim_date (snd (load_data load_df empty_db))) = [20190103, 20190105, 20190107]
   \<and> (\<exists>db'. load_dim_date load_df empty_db = Inr (3, db')
          \<and> map date_key (dim_date db') = [20190103, 20190105, 20190107])"
proof -
  note t = dim_date_rows [of load_df empty_db]
  have c: "col_values load_df ''order_date'' = [Ts (Date 2019 1 3), Ts (Date 2019 1 3)]"
    "col_values load_df ''ship_date'' = [Ts (Date 2019 1 7), Ts (Date 2019 1 5)]"
    by code_simp+
  have v: "\<forall>d \<in> set (all_dates load_df). valid_date d"
    by (simp add: load_df_dates days_in_month_def)
  obtain p where "load_dim_date load_df empty_db = Inr p"
    using load_df_staged by (cases "load_dim_date load_df empty_db") auto
  then obtain n db' where l: "load_dim_date load_df empty_db = Inr (n, db')"
    by (cases p) auto
  have e: "dim_date empty_db = []"
    by (simp add: empty_db_def)
  have k: "map date_key (map date_row (all_dates load_df)) = [20190103, 20190105, 20190107]"
    by (simp add: load_df_dates date_row_def)
  have "n = 3" "map date_key (dim_date db') = [20190103, 20190105, 20190107]"
    using t l e k by (simp_all add: load_df_dates)
  moreover have "map date_key (dim_date (snd (load_data load_df empty_db))) = [20190103, 20190105, 20190107]"
    using t load_df_loaded k by simp
  ultimately show ?thesis
    using l c load_df_dates by simp
qed

end
